theory Spec2Isabelle
  imports Main "HOL-Library.Sublist" "HOL-Library.Multiset"
begin

section \<open>Strings\<close>

text \<open>
  JavaScript strings are modelled as \<^typ>\<open>string\<close>. The built-ins the glossary calls
  are given on ASCII text: \<open>toLowerCase\<close> maps \<open>A\<close>..\<open>Z\<close> to \<open>a\<close>..\<open>z\<close> and leaves
  every other character alone, \<open>trim\<close> strips tab, line feed, vertical tab, form
  feed, carriage return and space from both ends. The ellipsis of the truncation
  marker is kept as its three UTF-8 bytes.
\<close>

definition toLowerChar :: "char \<Rightarrow> char" where
  "toLowerChar c =
     (case map_of (zip ''ABCDEFGHIJKLMNOPQRSTUVWXYZ'' ''abcdefghijklmnopqrstuvwxyz'') c of
        Some l \<Rightarrow> l
      | None \<Rightarrow> c)"

definition toLowerCase :: "string \<Rightarrow> string" where
  "toLowerCase s = map toLowerChar s"

definition isSpace :: "char \<Rightarrow> bool" where
  "isSpace c = (c \<in> set [CHR 0x09, CHR 0x0A, CHR 0x0B, CHR 0x0C, CHR 0x0D, CHR 0x20])"

definition trim :: "string \<Rightarrow> string" where
  "trim s = rev (dropWhile isSpace (rev (dropWhile isSpace s)))"

definition startsWith :: "string \<Rightarrow> string \<Rightarrow> bool" where
  "startsWith s t = (take (length t) s = t)"

fun includesStr :: "string \<Rightarrow> string \<Rightarrow> bool" where
  "includesStr [] t = (t = [])"
| "includesStr (c # s) t = (startsWith (c # s) t \<or> includesStr s t)"

definition digitChar :: "nat \<Rightarrow> char" where
  "digitChar d = ''0123456789'' ! d"

text \<open>Number-to-string conversion of a template literal, for a non-negative integer.\<close>

fun decimal :: "nat \<Rightarrow> string" where
  "decimal n = (if n < 10 then [digitChar n] else decimal (n div 10) @ [digitChar (n mod 10)])"

declare decimal.simps [simp del]

definition ellipsis :: string where
  "ellipsis = [CHR 0xE2, CHR 0x80, CHR 0xA6]"

text \<open>
  \<open>Array.prototype.sort\<close> with a comparator: a stable sort. For a consistent
  comparator the result of a stable sort is unique, so insertion keeping equal
  elements in their original order computes it.
\<close>

fun insertBy :: "('a \<Rightarrow> 'a \<Rightarrow> int) \<Rightarrow> 'a \<Rightarrow> 'a list \<Rightarrow> 'a list" where
  "insertBy cmp x [] = [x]"
| "insertBy cmp x (y # ys) = (if cmp x y \<le> 0 then x # y # ys else y # insertBy cmp x ys)"

definition sortBy :: "('a \<Rightarrow> 'a \<Rightarrow> int) \<Rightarrow> 'a list \<Rightarrow> 'a list" where
  "sortBy cmp xs = foldr (insertBy cmp) xs []"

section \<open>Data model\<close>

text \<open>
  One record of the fetched JSON array. \<open>tags\<close> and \<open>parent\<close> may be missing from
  the object (\<open>undefined\<close> in the source), hence the options. \<open>word\<close> and
  \<open>definition\<close> (here \<open>defn\<close>) are taken to be strings: the scripts do not
  validate the records.
\<close>

record entry =
  word :: string
  defn :: string
  tags :: "string list option"
  parent :: "string option"

text \<open>
  A DOM element as far as the scripts build one: tag, class list, its own text,
  attributes (\<open>data-*\<close>, \<open>href\<close>, inline style), the word a click listener attached to
  the element itself passes to \<open>selectWord\<close>, and child elements.
\<close>

datatype element =
  El (tagName: string) (classes: "string list") (ownText: string)
     (attrs: "(string \<times> string) list") (onclick: "string option")
     (children: "element list")

text \<open>
  What a region of the page holds: either the string last assigned to
  \<open>innerHTML\<close> (the browser's parse of it is outside the model) or the elements
  appended to the emptied region.
\<close>

datatype content = InnerHTML string | Children "element list"

datatype error = TypeError

section \<open>Shared helpers (identical in all three scripts)\<close>

definition getChildren :: "entry list \<Rightarrow> string \<Rightarrow> entry list" where
  "getChildren ws p = filter (\<lambda>w. parent w = Some p) ws"

definition findWord :: "entry list \<Rightarrow> string \<Rightarrow> entry option" where
  "findWord ws x = List.find (\<lambda>w. toLowerCase (word w) = toLowerCase x) ws"

section \<open>The tree script (depth-limited tree, grouped search results)\<close>

text \<open>
  The script's three globals and the two page regions it writes. \<open>parentLink\<close> is
  what \<open>dataset.parent\<close> gives for the \<open>.parent-link\<close> element that
  \<open>querySelector\<close> finds after the panel was written, and to which \<open>selectWord\<close>
  attaches a click listener; it is \<open>None\<close> when there is no such element.
\<close>

record state =
  wordsData :: "entry list"
  currentWord :: "string option"
  searchTerm :: string
  treeContainer :: content
  definitionPanel :: content
  parentLink :: "string option"

text \<open>\<open>createWordElement(wordData, active)\<close>; only \<open>wordData.word\<close> is read.\<close>

definition createWordElement :: "state \<Rightarrow> string \<Rightarrow> bool \<Rightarrow> element" where
  "createWordElement st w active =
     El ''div''
        ([''word-node''] @ (if active then [''active''] else [])
         @ (if searchTerm st \<noteq> [] \<and> \<not> startsWith (toLowerCase w) (searchTerm st)
            then [''hidden''] else []))
        w [(''data-word'', w)] (Some w) []"

text \<open>The synthetic marker for \<open>n\<close> omitted children: no \<open>data-word\<close>, no listener.\<close>

definition moreElement :: "nat \<Rightarrow> element" where
  "moreElement n =
     El ''div'' [''word-node''] (''+'' @ decimal n @ '' more'' @ ellipsis)
        [(''style.opacity'', ''0.5'')] None []"

text \<open>The inner \<open>sub\<close> division built for the children \<open>gg\<close> of one grandchild.\<close>

definition subLevel :: "state \<Rightarrow> entry list \<Rightarrow> element" where
  "subLevel st gg =
     El ''div'' [''level''] [] [] None
        (map (\<lambda>c. createWordElement st (word c) (Some (word c) = currentWord st)) (take 3 gg)
         @ (if length gg > 3 then [moreElement (length gg - 3)] else []))"

text \<open>The \<open>levelDiv\<close> division built for the children \<open>grand\<close> of one kid.\<close>

definition levelDiv :: "state \<Rightarrow> nat \<Rightarrow> entry list \<Rightarrow> element" where
  "levelDiv st level grand =
     El ''div'' [''level''] [] [] None
        (map (\<lambda>g. createWordElement st (word g) (Some (word g) = currentWord st)) grand
         @ (if level < 1
            then concat (map (\<lambda>g. let gg = getChildren (wordsData st) (word g)
                                   in if gg \<noteq> [] then [subLevel st gg] else []) grand)
            else []))"

definition noDataMessage :: string where
  "noDataMessage = ''<div class=\"no-word\">No data to display</div>''"

definition noResultsMessage :: string where
  "noResultsMessage = ''<div class=\"no-word\">No results</div>''"

text \<open>
  \<open>renderDefaultTree(container, parent, level)\<close>, the container having been emptied
  by \<open>renderTree\<close>; the result is what the container holds afterwards.
\<close>

definition renderDefaultTree :: "state \<Rightarrow> string \<Rightarrow> nat \<Rightarrow> content" where
  "renderDefaultTree st p level =
     (let kids = getChildren (wordsData st) p in
      if kids = [] \<and> level = 0 then InnerHTML noDataMessage
      else Children (concat (map (\<lambda>kid.
             createWordElement st (word kid) (Some (word kid) = currentWord st)
             # (if level < 2
                then (let grand = getChildren (wordsData st) (word kid)
                      in if grand \<noteq> [] then [levelDiv st level grand] else [])
                else [])) kids)))"

text \<open>The comparator of the search sort; \<open>lc\<close> stands for \<open>localeCompare\<close>.\<close>

definition searchCompare :: "(string \<Rightarrow> string \<Rightarrow> int) \<Rightarrow> string \<Rightarrow> entry \<Rightarrow> entry \<Rightarrow> int" where
  "searchCompare lc term a b =
     (let aStart = startsWith (toLowerCase (word a)) term;
          bStart = startsWith (toLowerCase (word b)) term
      in if aStart \<and> \<not> bStart then - 1
         else if \<not> aStart \<and> bStart then 1
         else lc (word a) (word b))"

text \<open>The constant \<open>matches\<close> of \<open>renderSearchResults\<close>.\<close>

definition searchMatches :: "(string \<Rightarrow> string \<Rightarrow> int) \<Rightarrow> state \<Rightarrow> entry list" where
  "searchMatches lc st =
     sortBy (searchCompare lc (searchTerm st))
       (filter (\<lambda>w. includesStr (toLowerCase (word w)) (searchTerm st)) (wordsData st))"

text \<open>
  \<open>byParent\<close> is a plain object used as a dictionary. A property key is the string
  form of \<open>w.parent\<close>. Reading a key that \<open>Object.prototype\<close> defines finds the
  inherited member, which is truthy and has no \<open>push\<close>: the call throws.
\<close>

definition propertyKey :: "string option \<Rightarrow> string" where
  "propertyKey p = (case p of None \<Rightarrow> ''undefined'' | Some s \<Rightarrow> s)"

definition objectPrototypeKeys :: "string list" where
  "objectPrototypeKeys =
     [''constructor'', ''__defineGetter__'', ''__defineSetter__'', ''hasOwnProperty'',
      ''__lookupGetter__'', ''__lookupSetter__'', ''isPrototypeOf'',
      ''propertyIsEnumerable'', ''toString'', ''valueOf'', ''__proto__'',
      ''toLocaleString'']"

fun pushByParent :: "(string \<times> entry list) list \<Rightarrow> string \<Rightarrow> entry \<Rightarrow> (string \<times> entry list) list" where
  "pushByParent [] k w = [(k, [w])]"
| "pushByParent ((k', ws) # rest) k w =
     (if k' = k then (k', ws @ [w]) # rest else (k', ws) # pushByParent rest k w)"

fun groupByParent :: "(string \<times> entry list) list \<Rightarrow> entry list \<Rightarrow> error + (string \<times> entry list) list" where
  "groupByParent acc [] = Inr acc"
| "groupByParent acc (w # ws) =
     (let k = propertyKey (parent w) in
      if k \<in> set objectPrototypeKeys then Inl TypeError
      else groupByParent (pushByParent acc k w) ws)"

text \<open>
  \<open>Object.entries\<close>: keys that are array indices first, in ascending numeric order,
  then the other keys in the order of their creation.
\<close>

definition isDigit :: "char \<Rightarrow> bool" where
  "isDigit c = (48 \<le> (of_char c :: nat) \<and> (of_char c :: nat) \<le> 57)"

definition digitsValue :: "string \<Rightarrow> nat" where
  "digitsValue s = foldl (\<lambda>n c. 10 * n + ((of_char c :: nat) - 48)) 0 s"

definition isArrayIndex :: "string \<Rightarrow> bool" where
  "isArrayIndex s =
     (s \<noteq> [] \<and> list_all isDigit s \<and> (s = ''0'' \<or> hd s \<noteq> CHR ''0'')
      \<and> digitsValue s < 4294967295)"

definition objectEntries :: "(string \<times> 'v) list \<Rightarrow> (string \<times> 'v) list" where
  "objectEntries kvs =
     sort_key (\<lambda>kv. digitsValue (fst kv)) (filter (\<lambda>kv. isArrayIndex (fst kv)) kvs)
     @ filter (\<lambda>kv. \<not> isArrayIndex (fst kv)) kvs"

text \<open>The two elements appended for one \<open>[parent, children]\<close> entry.\<close>

definition searchGroup :: "state \<Rightarrow> string option \<Rightarrow> string \<times> entry list \<Rightarrow> element list" where
  "searchGroup st focusWord pc =
     (let p = fst pc; cs = snd pc;
          parentObjWord = (case findWord (wordsData st) p of Some w \<Rightarrow> word w | None \<Rightarrow> p)
      in [createWordElement st parentObjWord (Some p = focusWord),
          El ''div'' [''level''] [] [] None
             (map (\<lambda>c. createWordElement st (word c) (Some (word c) = focusWord)) cs)])"

text \<open>
  \<open>renderSearchResults(container, focusWord)\<close> on the emptied container: the new
  content, or the error thrown before anything was appended.
\<close>

definition renderSearchResults :: "(string \<Rightarrow> string \<Rightarrow> int) \<Rightarrow> state \<Rightarrow> string option \<Rightarrow> error + content" where
  "renderSearchResults lc st focusWord =
     (let matches = searchMatches lc st in
      if matches = [] then Inr (InnerHTML noResultsMessage)
      else (case groupByParent [] matches of
              Inl e \<Rightarrow> Inl e
            | Inr byParent \<Rightarrow>
                Inr (Children (concat (map (searchGroup st focusWord) (objectEntries byParent))))))"

text \<open>
  \<open>renderTree(focusWord)\<close>. An error leaves the container as emptied on entry and
  is returned next to the state, since it escapes to the event loop.
\<close>

definition renderTree :: "(string \<Rightarrow> string \<Rightarrow> int) \<Rightarrow> string option \<Rightarrow> state \<Rightarrow> error option \<times> state" where
  "renderTree lc focusWord st =
     (if searchTerm st \<noteq> []
      then (case renderSearchResults lc st focusWord of
              Inl e \<Rightarrow> (Some e, st\<lparr>treeContainer := Children []\<rparr>)
            | Inr c \<Rightarrow> (None, st\<lparr>treeContainer := c\<rparr>))
      else (None, st\<lparr>treeContainer := renderDefaultTree st ''root'' 0\<rparr>))"

text \<open>Line break and indentation inside the template literal of \<open>selectWord\<close>.\<close>

definition nl :: "nat \<Rightarrow> string" where
  "nl n = CHR 0x0A # replicate n (CHR '' '')"

definition tagChip :: "string \<Rightarrow> string" where
  "tagChip t = ''<span class=\"tag\">'' @ t @ ''</span>''"

definition parentLine :: "string \<Rightarrow> string" where
  "parentLine p =
     ''<p>Parent: <a href=\"#\" class=\"parent-link\" data-parent=\"'' @ p @ ''\">'' @ p
     @ ''</a></p>''"

text \<open>
  JavaScript truthiness of \<open>parent && parent !== 'root'\<close>: the field is there, is
  not the empty string, and is not the sentinel.
\<close>

definition hasParentLink :: "entry \<Rightarrow> bool" where
  "hasParentLink w =
     (case parent w of None \<Rightarrow> False | Some p \<Rightarrow> p \<noteq> [] \<and> p \<noteq> ''root'')"

definition tagList :: "entry \<Rightarrow> string list" where
  "tagList w = (case tags w of None \<Rightarrow> [] | Some ts \<Rightarrow> ts)"

text \<open>The template literal assigned to the panel's \<open>innerHTML\<close> by \<open>selectWord\<close>.\<close>

definition definitionTemplate :: "entry \<Rightarrow> string" where
  "definitionTemplate w =
     nl 16 @ ''<h2>'' @ word w @ ''</h2>''
     @ nl 16 @ ''<p class=\"definition-text\">'' @ defn w @ ''</p>''
     @ nl 16 @ (if tagList w \<noteq> []
                then ''<div class=\"tags-container\">'' @ nl 25
                     @ concat (map tagChip (tagList w)) @ nl 23 @ ''</div>''
                else [])
     @ nl 16 @ (if hasParentLink w then parentLine (the (parent w)) else [])
     @ nl 12"

text \<open>\<open>n.classList.toggle('active', n.dataset.word === word)\<close> on every \<open>.word-node\<close>.\<close>

fun toggleActive :: "string \<Rightarrow> element \<Rightarrow> element" where
  "toggleActive w (El t cs x as k ch) =
     El t (if ''word-node'' \<in> set cs
           then (if map_of as ''data-word'' = Some w
                 then (if ''active'' \<in> set cs then cs else cs @ [''active''])
                 else filter (\<lambda>c. c \<noteq> ''active'') cs)
           else cs)
        x as k (map (toggleActive w) ch)"

definition toggleActiveAll :: "string \<Rightarrow> content \<Rightarrow> content" where
  "toggleActiveAll w c =
     (case c of InnerHTML h \<Rightarrow> InnerHTML h | Children es \<Rightarrow> Children (map (toggleActive w) es))"

text \<open>
  The value the browser reads back for \<open>data-parent\<close>. The template writes the
  parent, unescaped, between double quotes, and the parser ends the attribute value
  at the first double quote it meets: a parent that holds one is cut there. This is
  as far as the parse of the panel is modelled, and it is what the browser does for a
  record whose word, definition and tags hold no \<open><\<close> and whose parent holds no
  \<open>&\<close>, NUL or carriage return: then the first \<open>.parent-link\<close> element of the
  panel is the one of the parent line, and there is none when that line was left
  out.
\<close>

definition dataParent :: "string \<Rightarrow> string" where
  "dataParent p = takeWhile (\<lambda>c. c \<noteq> CHR 0x22) p"

text \<open>
  \<open>selectWord(word)\<close>. The global is assigned first; a lookup miss returns before
  anything is drawn. The listener of the parent link gets the value read back from
  the parsed panel.
\<close>

definition selectWord :: "(string \<Rightarrow> string \<Rightarrow> int) \<Rightarrow> string \<Rightarrow> state \<Rightarrow> error option \<times> state" where
  "selectWord lc w st =
     (let st1 = st\<lparr>currentWord := Some w\<rparr> in
      case findWord (wordsData st1) w of
        None \<Rightarrow> (None, st1)
      | Some e \<Rightarrow>
          renderTree lc (Some w)
            (st1\<lparr>treeContainer := toggleActiveAll w (treeContainer st1),
                 definitionPanel := InnerHTML (definitionTemplate e),
                 parentLink := (if hasParentLink e then Some (dataParent (the (parent e)))
                                else None)\<rparr>))"

text \<open>A click on an element of the tree runs the listener attached to it, if any.\<close>

definition clickElement :: "(string \<Rightarrow> string \<Rightarrow> int) \<Rightarrow> element \<Rightarrow> state \<Rightarrow> error option \<times> state" where
  "clickElement lc el st =
     (case onclick el of None \<Rightarrow> (None, st) | Some w \<Rightarrow> selectWord lc w st)"

text \<open>A click on the parent link of the panel, if the panel has one.\<close>

definition clickParentLink :: "(string \<Rightarrow> string \<Rightarrow> int) \<Rightarrow> state \<Rightarrow> error option \<times> state" where
  "clickParentLink lc st =
     (case parentLink st of None \<Rightarrow> (None, st) | Some p \<Rightarrow> selectWord lc p st)"

definition promptHTML :: string where
  "promptHTML =
     ''<h2>Select a word</h2><p class=\"definition-text\">Click any word in the tree to see its definition.</p>''"

text \<open>A string or \<open>null\<close> used as a condition.\<close>

definition truthy :: "string option \<Rightarrow> bool" where
  "truthy v = (case v of None \<Rightarrow> False | Some s \<Rightarrow> s \<noteq> [])"

text \<open>
  The \<open>input\<close> listener of the search box, on the raw value of the box. When the
  tree rendering throws, the panel assignment after it is not reached.
\<close>

definition searchInput :: "(string \<Rightarrow> string \<Rightarrow> int) \<Rightarrow> string \<Rightarrow> state \<Rightarrow> error option \<times> state" where
  "searchInput lc raw st =
     (let st1 = st\<lparr>searchTerm := toLowerCase (trim raw)\<rparr>;
          st2 = (if searchTerm st1 = [] then st1\<lparr>currentWord := None\<rparr> else st1)
      in case renderTree lc (currentWord st2) st2 of
           (Some e, st3) \<Rightarrow> (Some e, st3)
         | (None, st3) \<Rightarrow>
             (None, st3\<lparr>definitionPanel :=
                             InnerHTML (if truthy (currentWord st3) then [] else promptHTML),
                          parentLink := None\<rparr>))"

text \<open>
  The success path of \<open>loadData\<close>: the fetched array replaces \<open>wordsData\<close> and the
  tree is drawn. The fetch itself is outside the model.
\<close>

definition loadData :: "(string \<Rightarrow> string \<Rightarrow> int) \<Rightarrow> entry list \<Rightarrow> state \<Rightarrow> error option \<times> state" where
  "loadData lc ws st = renderTree lc None (st\<lparr>wordsData := ws\<rparr>)"

text \<open>The globals as initialised, on a page whose two regions are still empty.\<close>

definition freshPage :: state where
  "freshPage =
     \<lparr>wordsData = [], currentWord = None, searchTerm = [], treeContainer = Children [],
      definitionPanel = Children [], parentLink = None\<rparr>"

text \<open>
  A sample collation for running the model on concrete data: comparison by
  character code. The theorems about sorting hold for any consistent \<open>lc\<close>.
\<close>

fun codeUnitCompare :: "string \<Rightarrow> string \<Rightarrow> int" where
  "codeUnitCompare [] [] = 0"
| "codeUnitCompare [] (y # ys) = - 1"
| "codeUnitCompare (x # xs) [] = 1"
| "codeUnitCompare (x # xs) (y # ys) =
     (if (of_char x :: nat) < of_char y then - 1
      else if (of_char y :: nat) < of_char x then 1
      else codeUnitCompare xs ys)"

section \<open>The delegated script (flat tree, definition renderer, prefetch)\<close>

text \<open>
  The \<open>state\<close> object of \<open>script.js\<close> and the two regions of \<open>dom\<close> it writes. The
  current word is the entry itself here, not its name.
\<close>

record sstate =
  words :: "entry list"
  s_currentWord :: "entry option"
  s_searchTerm :: string
  prefetchedDefinition :: "string option"
  s_treeContainer :: content
  s_definitionPanel :: content

definition noResultsFound :: string where
  "noResultsFound = ''<div class=\"no-word\">No results found.</div>''"

definition noWordsToDisplay :: string where
  "noWordsToDisplay = ''<div class=\"no-word\">No words to display.</div>''"

definition createWordElement_s :: "sstate \<Rightarrow> entry \<Rightarrow> element" where
  "createWordElement_s st wordData =
     El ''div''
        ([''word-node'']
         @ (case s_currentWord st of
              None \<Rightarrow> []
            | Some c \<Rightarrow> if word wordData = word c then [''active''] else []))
        (word wordData) [(''data-word'', word wordData)] None []"

definition renderTree_s :: "sstate \<Rightarrow> sstate" where
  "renderTree_s st =
     (if s_searchTerm st \<noteq> []
      then (let searchResults =
                  filter (\<lambda>w. includesStr (toLowerCase (word w)) (s_searchTerm st)) (words st)
            in if length searchResults > 0
               then st\<lparr>s_treeContainer := Children (map (createWordElement_s st) searchResults)\<rparr>
               else st\<lparr>s_treeContainer := InnerHTML noResultsFound\<rparr>)
      else (let rootWords = getChildren (words st) ''root''
            in if length rootWords > 0
               then st\<lparr>s_treeContainer := Children (map (createWordElement_s st) rootWords)\<rparr>
               else st\<lparr>s_treeContainer := InnerHTML noWordsToDisplay\<rparr>))"

definition generateDefinitionHTML :: "entry option \<Rightarrow> string" where
  "generateDefinitionHTML wordData =
     (case wordData of
        None \<Rightarrow> []
      | Some w \<Rightarrow>
          ''<h2>'' @ word w @ ''</h2><p class=\"definition-text\">'' @ defn w @ ''</p>''
          @ (if tagList w \<noteq> []
             then ''<div class=\"tags-container\">'' @ concat (map tagChip (tagList w)) @ ''</div>''
             else [])
          @ (if hasParentLink w then parentLine (the (parent w)) else []))"

text \<open>The prompt built from two elements when nothing is selected.\<close>

definition selectPrompt :: "element list" where
  "selectPrompt =
     [El ''h2'' [] ''Select a word'' [] None [],
      El ''p'' [''definition-text''] ''Click any word in the tree to see its definition.'' [] None []]"

text \<open>\<open>renderDefinitionPanel\<close> of the first variant: a cached string wins, once.\<close>

definition renderDefinitionPanel :: "sstate \<Rightarrow> sstate" where
  "renderDefinitionPanel st =
     (if truthy (prefetchedDefinition st)
      then st\<lparr>s_definitionPanel := InnerHTML (the (prefetchedDefinition st)),
              prefetchedDefinition := None\<rparr>
      else (case s_currentWord st of
              None \<Rightarrow> st\<lparr>s_definitionPanel := Children selectPrompt\<rparr>
            | Some w \<Rightarrow> st\<lparr>s_definitionPanel := InnerHTML (generateDefinitionHTML (Some w))\<rparr>))"

definition render :: "sstate \<Rightarrow> sstate" where
  "render st = renderDefinitionPanel (renderTree_s st)"

text \<open>
  The target of a delegated event, as far as the handlers look at it: its class
  and the \<open>data-*\<close> value they read.
\<close>

datatype target = WordNode string | ParentLink string | Other

definition handleTreeClick :: "target \<Rightarrow> sstate \<Rightarrow> sstate" where
  "handleTreeClick t st =
     (case t of
        WordNode w \<Rightarrow> render (st\<lparr>s_currentWord := findWord (words st) w\<rparr>)
      | ParentLink parentWord \<Rightarrow> render (st\<lparr>s_currentWord := findWord (words st) parentWord\<rparr>)
      | Other \<Rightarrow> st)"

text \<open>The function the debounce timer runs, on the value of the search box.\<close>

definition handleSearchInput :: "string \<Rightarrow> sstate \<Rightarrow> sstate" where
  "handleSearchInput raw st = renderTree_s (st\<lparr>s_searchTerm := toLowerCase (trim raw)\<rparr>)"

definition handleTreeMouseover :: "target \<Rightarrow> sstate \<Rightarrow> sstate" where
  "handleTreeMouseover t st =
     (case t of
        WordNode w \<Rightarrow> st\<lparr>prefetchedDefinition := Some (generateDefinitionHTML (findWord (words st) w))\<rparr>
      | _ \<Rightarrow> st)"

definition handleTreeMouseout :: "target \<Rightarrow> sstate \<Rightarrow> sstate" where
  "handleTreeMouseout t st =
     (case t of WordNode w \<Rightarrow> st\<lparr>prefetchedDefinition := None\<rparr> | _ \<Rightarrow> st)"

text \<open>
  The click listener \<open>init\<close> registers, and the only one: on the tree container.
  A click on an element of the definition panel, the parent link included, reaches
  no handler. (The panel cannot lie inside the tree container, which every render
  empties before the panel is written.)
\<close>

datatype region = InTree | InPanel

definition clickAt :: "region \<Rightarrow> target \<Rightarrow> sstate \<Rightarrow> sstate" where
  "clickAt r t st = (case r of InTree \<Rightarrow> handleTreeClick t st | InPanel \<Rightarrow> st)"

text \<open>
  \<open>renderDefinitionPanel\<close> of the second variant of \<open>script.js\<close>, which builds the
  panel from elements and has no cache; it reads the current word only.
\<close>

definition renderDefinitionPanel_dom :: "entry option \<Rightarrow> content" where
  "renderDefinitionPanel_dom cur =
     (case cur of
        None \<Rightarrow> Children selectPrompt
      | Some w \<Rightarrow>
          Children
            ([El ''h2'' [] (word w) [] None [],
              El ''p'' [''definition-text''] (defn w) [] None []]
             @ (if tagList w \<noteq> []
                then [El ''div'' [''tags-container''] [] [] None
                        (map (\<lambda>t. El ''span'' [''tag''] t [] None []) (tagList w))]
                else [])
             @ (if hasParentLink w
                then [El ''p'' [] ''Parent: '' [] None
                        [El ''a'' [''parent-link''] (the (parent w))
                            [(''href'', ''#''), (''data-parent'', the (parent w))] None []]]
                else [])))"

text \<open>The success path of \<open>loadData\<close> of \<open>script.js\<close>, and its initial state.\<close>

definition loadData_s :: "entry list \<Rightarrow> sstate \<Rightarrow> sstate" where
  "loadData_s ws st = render (st\<lparr>words := ws\<rparr>)"

definition freshPage_s :: sstate where
  "freshPage_s =
     \<lparr>words = [], s_currentWord = None, s_searchTerm = [], prefetchedDefinition = None,
      s_treeContainer = Children [], s_definitionPanel = Children []\<rparr>"

section \<open>Observations on rendered content\<close>

text \<open>
  Every element of a region, at any depth; the elements nested under exactly \<open>d\<close>
  enclosing elements; the \<open>data-word\<close> an element carries; and the entries \<open>n + 1\<close>
  parent steps below the root sentinel.
\<close>

fun nodes :: "element \<Rightarrow> element list" where
  "nodes (El t cs x as k ch) = El t cs x as k ch # concat (map nodes ch)"

definition allNodes :: "content \<Rightarrow> element list" where
  "allNodes c = (case c of InnerHTML h \<Rightarrow> [] | Children es \<Rightarrow> concat (map nodes es))"

fun levelEntries :: "entry list \<Rightarrow> nat \<Rightarrow> entry list" where
  "levelEntries ws 0 = getChildren ws ''root''"
| "levelEntries ws (Suc n) = concat (map (\<lambda>k. getChildren ws (word k)) (levelEntries ws n))"

definition dataWord :: "element \<Rightarrow> string option" where
  "dataWord el = map_of (attrs el) ''data-word''"

abbreviation (input) wordEl :: "state \<Rightarrow> entry \<Rightarrow> element" where
  "wordEl st c \<equiv> createWordElement st (word c) (Some (word c) = currentWord st)"

fun nodesAt :: "nat \<Rightarrow> element \<Rightarrow> element list" where
  "nodesAt 0 el = [el]"
| "nodesAt (Suc d) el = concat (map (nodesAt d) (children el))"

definition contentNodesAt :: "nat \<Rightarrow> content \<Rightarrow> element list" where
  "contentNodesAt d c = (case c of InnerHTML h \<Rightarrow> [] | Children es \<Rightarrow> concat (map (nodesAt d) es))"

text \<open>
  The record set of the specification's scenario (\<open>Bolt\<close>, \<open>Hex Bolt\<close>), with five
  sizes under \<open>Hex Bolt\<close> and one entry a level further down.
\<close>

definition sampleWords :: "entry list" where
  "sampleWords =
     [\<lparr>word = ''Bolt'', defn = ''A fastener'', tags = Some [''hardware''], parent = Some ''root''\<rparr>,
      \<lparr>word = ''Hex Bolt'', defn = ''Six-sided head'', tags = Some [], parent = Some ''Bolt''\<rparr>,
      \<lparr>word = ''M6'', defn = ''6 mm'', tags = None, parent = Some ''Hex Bolt''\<rparr>,
      \<lparr>word = ''M8'', defn = ''8 mm'', tags = None, parent = Some ''Hex Bolt''\<rparr>,
      \<lparr>word = ''M10'', defn = ''10 mm'', tags = None, parent = Some ''Hex Bolt''\<rparr>,
      \<lparr>word = ''M12'', defn = ''12 mm'', tags = None, parent = Some ''Hex Bolt''\<rparr>,
      \<lparr>word = ''M16'', defn = ''16 mm'', tags = None, parent = Some ''Hex Bolt''\<rparr>,
      \<lparr>word = ''M8x20'', defn = ''20 mm long'', tags = None, parent = Some ''M8''\<rparr>]"

text \<open>The pairs of a key of \<open>byParent\<close> and a member of its array.\<close>

definition groupMembers :: "(string \<times> entry list) list \<Rightarrow> (string \<times> entry) set" where
  "groupMembers kvs = {(k, w). \<exists>ws. (k, ws) \<in> set kvs \<and> w \<in> set ws}"

text \<open>The word of \<open>findWord(parent) || { word: parent }\<close>.\<close>

definition headerWord :: "state \<Rightarrow> string \<Rightarrow> string" where
  "headerWord st p = (case findWord (wordsData st) p of Some w \<Rightarrow> word w | None \<Rightarrow> p)"

text \<open>The two words of the search-ordering example.\<close>

definition catWords :: "entry list" where
  "catWords =
     [\<lparr>word = ''indicator'', defn = ''A sign'', tags = None, parent = Some ''root''\<rparr>,
      \<lparr>word = ''catalog'', defn = ''A list'', tags = None, parent = Some ''root''\<rparr>]"

text \<open>The texts of the elements of a region that satisfy \<open>P\<close>, in document order.\<close>

definition textsWhere :: "(element \<Rightarrow> bool) \<Rightarrow> content \<Rightarrow> string list" where
  "textsWhere P c = map ownText (filter P (allNodes c))"

text \<open>
  The direct path: what \<open>renderDefinitionPanel\<close> draws from the current word when
  the cache holds nothing.
\<close>

definition directContent :: "entry option \<Rightarrow> content" where
  "directContent cur =
     (case cur of None \<Rightarrow> Children selectPrompt
      | Some w \<Rightarrow> InnerHTML (generateDefinitionHTML (Some w)))"

text \<open>
  Text that the HTML parser reads back as it was written, in element content and
  in a double-quoted attribute value; and the entries whose strings are all such.
\<close>

definition plainText :: "string \<Rightarrow> bool" where
  "plainText s =
     list_all (\<lambda>c. c \<notin> set [CHR ''<'', CHR ''&'', CHR 0x22, CHR 0x00, CHR 0x0D]) s"

definition plainEntry :: "entry \<Rightarrow> bool" where
  "plainEntry w =
     (plainText (word w) \<and> plainText (defn w) \<and> list_all plainText (tagList w)
      \<and> (case parent w of None \<Rightarrow> True | Some p \<Rightarrow> plainText p))"

text \<open>
  A record set with a dangling parent, and the tree script after the user searched
  for \<open>orph\<close> and clicked the entry found.
\<close>

definition orphanWords :: "entry list" where
  "orphanWords =
     [\<lparr>word = ''Orphan'', defn = ''No parent entry'', tags = None, parent = Some ''Ghost''\<rparr>]"

definition orphanSelected :: state where
  "orphanSelected =
     snd (selectWord codeUnitCompare ''Orphan''
       (snd (searchInput codeUnitCompare ''orph'' (snd (loadData codeUnitCompare orphanWords freshPage)))))"

text \<open>
  A record set whose parent word holds a double quote, and the tree script after
  the user clicked the child in the default tree.
\<close>

definition quoteWords :: "entry list" where
  "quoteWords =
     [\<lparr>word = ''1/4\" Bolt'', defn = ''Quarter inch'', tags = None, parent = Some ''root''\<rparr>,
      \<lparr>word = ''Washer'', defn = ''A flat ring'', tags = None, parent = Some ''1/4\" Bolt''\<rparr>]"

definition washerSelected :: state where
  "washerSelected =
     snd (selectWord codeUnitCompare ''Washer'' (snd (loadData codeUnitCompare quoteWords freshPage)))"

text \<open>
  \<open>script.js\<close> on the scenario's record set after the user searched for \<open>hex\<close>
  and clicked \<open>Hex Bolt\<close> in the tree.
\<close>

definition hexSelected_s :: sstate where
  "hexSelected_s =
     clickAt InTree (WordNode ''Hex Bolt'')
       (handleSearchInput ''hex'' (loadData_s sampleWords freshPage_s))"

text \<open>
  What \<open>Array.prototype.sort\<close> asks of a comparator, for \<open>localeCompare\<close> on a
  set of words: the sign flips with the arguments, and the order is transitive.
\<close>

definition consistentOn :: "(string \<Rightarrow> string \<Rightarrow> int) \<Rightarrow> string set \<Rightarrow> bool" where
  "consistentOn lc S =
     ((\<forall>a\<in>S. \<forall>b\<in>S. (lc a b < 0) = (0 < lc b a))
      \<and> (\<forall>a\<in>S. \<forall>b\<in>S. \<forall>c\<in>S. lc a b \<le> 0 \<and> lc b c \<le> 0 \<longrightarrow> lc a c \<le> 0))"

section \<open>Facts about the string helpers\<close>

lemma toLowerChar_idem: "toLowerChar (toLowerChar c) = toLowerChar c"
  unfolding toLowerChar_def by (simp split: option.splits)

lemma toLowerCase_idem: "toLowerCase (toLowerCase s) = toLowerCase s"
  by (simp add: toLowerCase_def toLowerChar_idem)

lemma isSpace_toLowerChar: "isSpace (toLowerChar c) = isSpace c"
  unfolding toLowerChar_def isSpace_def by (simp split: option.splits)

lemma startsWith_prefix: "startsWith s t \<longleftrightarrow> prefix t s"
  unfolding startsWith_def prefix_def by (metis append_eq_conv_conj append_take_drop_id)

lemma includesStr_sublist: "includesStr s t \<longleftrightarrow> sublist t s"
  by (induction s) (auto simp: startsWith_prefix sublist_Cons_right)

lemma startsWith_includes: "startsWith s t \<Longrightarrow> includesStr s t"
  by (simp add: includesStr_sublist startsWith_prefix prefix_imp_sublist)

lemma isSpace_comp: "isSpace \<circ> toLowerChar = isSpace"
  by (rule ext) (simp add: isSpace_toLowerChar)

lemma dropWhile_isSpace_lower:
  "dropWhile isSpace (map toLowerChar s) = map toLowerChar (dropWhile isSpace s)"
  by (simp add: dropWhile_map isSpace_comp)

lemma trim_toLowerCase: "trim (toLowerCase s) = toLowerCase (trim s)"
  unfolding trim_def toLowerCase_def
  by (simp add: dropWhile_isSpace_lower rev_map)

lemma trim_all_space: "list_all isSpace s \<Longrightarrow> trim s = []"
proof -
  assume "list_all isSpace s"
  then have d: "dropWhile isSpace s = []"
    by (induction s) auto
  show ?thesis unfolding trim_def d by simp
qed

lemma trim_pad_right: "list_all isSpace v \<Longrightarrow> trim (a @ v) = trim a"
proof (cases "list_all isSpace a")
  case True
  assume "list_all isSpace v"
  with True show ?thesis by (simp add: trim_all_space)
next
  case False
  assume v: "list_all isSpace v"
  from False obtain x where x: "x \<in> set a" "\<not> isSpace x" by (auto simp: list_all_iff)
  then have "dropWhile isSpace (a @ v) = dropWhile isSpace a @ v"
    by (simp add: dropWhile_append1)
  moreover have "dropWhile isSpace (rev v @ rev (dropWhile isSpace a)) = dropWhile isSpace (rev (dropWhile isSpace a))"
    using v by (intro dropWhile_append2) (simp add: list_all_iff)
  ultimately show ?thesis by (simp add: trim_def)
qed

lemma trim_pad: "list_all isSpace u \<Longrightarrow> list_all isSpace v \<Longrightarrow> trim (u @ a @ v) = trim a"
proof -
  assume u: "list_all isSpace u" and v: "list_all isSpace v"
  have "trim (u @ a @ v) = trim (a @ v)"
    using u by (simp add: trim_def dropWhile_append2 list_all_iff)
  with v show ?thesis by (simp add: trim_pad_right)
qed

lemma normalise_pad_case:
  "list_all isSpace u \<Longrightarrow> list_all isSpace v \<Longrightarrow> toLowerCase a = toLowerCase b \<Longrightarrow>
   toLowerCase (trim (u @ a @ v)) = toLowerCase (trim b)"
  by (metis trim_pad trim_toLowerCase)

lemma renderTree_searchTerm: "searchTerm (snd (renderTree lc f st)) = searchTerm st"
  by (simp add: renderTree_def split: sum.splits)

lemma renderTree_s_searchTerm: "s_searchTerm (renderTree_s st) = s_searchTerm st"
  by (simp add: renderTree_s_def Let_def)

lemma renderTree_default:
  "searchTerm st = [] \<Longrightarrow>
   renderTree lc f st = (None, st\<lparr>treeContainer := renderDefaultTree st ''root'' 0\<rparr>)"
  by (simp add: renderTree_def)

lemma searchInput_searchTerm: "searchTerm (snd (searchInput lc raw st)) = toLowerCase (trim raw)"
  by (simp add: searchInput_def Let_def renderTree_def split: sum.splits prod.splits option.splits)

section \<open>Empty outcomes\<close>

lemma matches_empty:
  "(\<forall>w\<in>set (wordsData st). \<not> includesStr (toLowerCase (word w)) (searchTerm st))
   \<Longrightarrow> searchMatches lc st = []"
  by (simp add: searchMatches_def sortBy_def filter_False)

text \<open>
  C9, as stated, fails: the empty record set and a record set without root children
  are drawn with one and the same message, in both scripts.
\<close>

theorem empty_outcomes_counterexample:
  "treeContainer (snd (loadData codeUnitCompare [] freshPage)) = InnerHTML noDataMessage
   \<and> treeContainer (snd (loadData codeUnitCompare
         [\<lparr>word = ''A'', defn = ''d'', tags = None, parent = Some ''B''\<rparr>] freshPage))
       = InnerHTML noDataMessage
   \<and> s_treeContainer (loadData_s [] freshPage_s) = InnerHTML noWordsToDisplay
   \<and> s_treeContainer (loadData_s
         [\<lparr>word = ''A'', defn = ''d'', tags = None, parent = Some ''B''\<rparr>] freshPage_s)
       = InnerHTML noWordsToDisplay"
  by (simp add: loadData_def freshPage_def renderTree_def renderDefaultTree_def getChildren_def
      loadData_s_def freshPage_s_def render_def renderTree_s_def renderDefinitionPanel_def truthy_def)

text \<open>
  C9, amended: there are two empty outcomes with two different, non-blank messages.
  With an empty search term, a record set with no child of \<open>root\<close> (the empty record
  set included) draws the no-data message; with a non-empty search term, a record
  set with no matching word (the empty record set included) draws the no-results
  message. This holds for the tree script and for \<open>script.js\<close>.
\<close>

theorem empty_outcomes_two_messages:
  "(searchTerm st = [] \<and> getChildren (wordsData st) ''root'' = []
      \<longrightarrow> renderTree lc f st = (None, st\<lparr>treeContainer := InnerHTML noDataMessage\<rparr>))
   \<and> (searchTerm st \<noteq> []
        \<and> (\<forall>w\<in>set (wordsData st). \<not> includesStr (toLowerCase (word w)) (searchTerm st))
      \<longrightarrow> renderTree lc f st = (None, st\<lparr>treeContainer := InnerHTML noResultsMessage\<rparr>))
   \<and> noDataMessage \<noteq> noResultsMessage \<and> noDataMessage \<noteq> [] \<and> noResultsMessage \<noteq> []
   \<and> (s_searchTerm ss = [] \<and> getChildren (words ss) ''root'' = []
      \<longrightarrow> renderTree_s ss = ss\<lparr>s_treeContainer := InnerHTML noWordsToDisplay\<rparr>)
   \<and> (s_searchTerm ss \<noteq> []
        \<and> (\<forall>w\<in>set (words ss). \<not> includesStr (toLowerCase (word w)) (s_searchTerm ss))
      \<longrightarrow> renderTree_s ss = ss\<lparr>s_treeContainer := InnerHTML noResultsFound\<rparr>)
   \<and> noWordsToDisplay \<noteq> noResultsFound \<and> noWordsToDisplay \<noteq> [] \<and> noResultsFound \<noteq> []"
proof -
  have a: "searchTerm st = [] \<and> getChildren (wordsData st) ''root'' = []
      \<longrightarrow> renderTree lc f st = (None, st\<lparr>treeContainer := InnerHTML noDataMessage\<rparr>)"
    by (simp add: renderTree_def renderDefaultTree_def)
  have b: "searchTerm st \<noteq> []
        \<and> (\<forall>w\<in>set (wordsData st). \<not> includesStr (toLowerCase (word w)) (searchTerm st))
      \<longrightarrow> renderTree lc f st = (None, st\<lparr>treeContainer := InnerHTML noResultsMessage\<rparr>)"
    by (simp add: renderTree_def renderSearchResults_def matches_empty)
  have c: "noDataMessage \<noteq> noResultsMessage \<and> noDataMessage \<noteq> [] \<and> noResultsMessage \<noteq> []"
    by (simp add: noDataMessage_def noResultsMessage_def)
  have d: "s_searchTerm ss = [] \<and> getChildren (words ss) ''root'' = []
      \<longrightarrow> renderTree_s ss = ss\<lparr>s_treeContainer := InnerHTML noWordsToDisplay\<rparr>"
    by (simp add: renderTree_s_def)
  have e: "s_searchTerm ss \<noteq> []
        \<and> (\<forall>w\<in>set (words ss). \<not> includesStr (toLowerCase (word w)) (s_searchTerm ss))
      \<longrightarrow> renderTree_s ss = ss\<lparr>s_treeContainer := InnerHTML noResultsFound\<rparr>"
    by (simp add: renderTree_s_def filter_False)
  have g: "noWordsToDisplay \<noteq> noResultsFound \<and> noWordsToDisplay \<noteq> [] \<and> noResultsFound \<noteq> []"
    by (simp add: noWordsToDisplay_def noResultsFound_def)
  from a b c d e g show ?thesis by blast
qed

theorem empty_outcomes_two_messages_witness:
  "renderTree codeUnitCompare None freshPage
     = (None, freshPage\<lparr>treeContainer := InnerHTML noDataMessage\<rparr>)
   \<and> renderTree codeUnitCompare None
        (freshPage\<lparr>wordsData := [\<lparr>word = ''Bolt'', defn = ''A fastener'', tags = None,
                                   parent = Some ''root''\<rparr>], searchTerm := ''zz''\<rparr>)
     = (None, freshPage\<lparr>wordsData := [\<lparr>word = ''Bolt'', defn = ''A fastener'', tags = None,
                                   parent = Some ''root''\<rparr>], searchTerm := ''zz'',
                        treeContainer := InnerHTML noResultsMessage\<rparr>)
   \<and> renderTree_s freshPage_s = freshPage_s\<lparr>s_treeContainer := InnerHTML noWordsToDisplay\<rparr>
   \<and> renderTree_s
        (freshPage_s\<lparr>words := [\<lparr>word = ''Bolt'', defn = ''A fastener'', tags = None,
                                 parent = Some ''root''\<rparr>], s_searchTerm := ''zz''\<rparr>)
     = freshPage_s\<lparr>words := [\<lparr>word = ''Bolt'', defn = ''A fastener'', tags = None,
                                 parent = Some ''root''\<rparr>], s_searchTerm := ''zz'',
                    s_treeContainer := InnerHTML noResultsFound\<rparr>"
  using empty_outcomes_two_messages [of freshPage codeUnitCompare None freshPage_s]
    empty_outcomes_two_messages
      [of "freshPage\<lparr>wordsData := [\<lparr>word = ''Bolt'', defn = ''A fastener'', tags = None,
                                   parent = Some ''root''\<rparr>], searchTerm := ''zz''\<rparr>"
          codeUnitCompare None
          "freshPage_s\<lparr>words := [\<lparr>word = ''Bolt'', defn = ''A fastener'', tags = None,
                                 parent = Some ''root''\<rparr>], s_searchTerm := ''zz''\<rparr>"]
  by (simp add: freshPage_def freshPage_s_def getChildren_def toLowerCase_def toLowerChar_def
      startsWith_def)

section \<open>Search input\<close>

lemma searchInput_cong:
  "toLowerCase (trim r1) = toLowerCase (trim r2) \<Longrightarrow> searchInput lc r1 st = searchInput lc r2 st"
  by (simp add: searchInput_def)

lemma handleSearchInput_cong:
  "toLowerCase (trim r1) = toLowerCase (trim r2) \<Longrightarrow> handleSearchInput r1 ss = handleSearchInput r2 ss"
  by (simp add: handleSearchInput_def)

lemma searchInput_blank:
  "list_all isSpace raw \<Longrightarrow>
   searchInput lc raw st =
     (None, st\<lparr>searchTerm := [], currentWord := None,
               treeContainer := renderDefaultTree (st\<lparr>searchTerm := [], currentWord := None\<rparr>) ''root'' 0,
               definitionPanel := InnerHTML promptHTML, parentLink := None\<rparr>)"
  by (simp add: searchInput_def trim_all_space toLowerCase_def renderTree_def truthy_def Let_def)

lemma handleSearchInput_blank:
  "list_all isSpace raw \<Longrightarrow>
   handleSearchInput raw ss =
     ss\<lparr>s_searchTerm := [],
        s_treeContainer :=
          (if getChildren (words ss) ''root'' \<noteq> []
           then Children (map (createWordElement_s ss) (getChildren (words ss) ''root''))
           else InnerHTML noWordsToDisplay)\<rparr>"
  by (simp add: handleSearchInput_def trim_all_space toLowerCase_def renderTree_s_def
      createWordElement_s_def Let_def)

text \<open>
  C10: the stored search term is the raw value of the box, trimmed and lowercased.
  A raw value that differs from another only by surrounding whitespace and by the
  case of its letters leaves both handlers in the same state, tree included. A raw
  value of whitespace only acts as the empty value: the term is empty and the
  default tree is drawn.
\<close>

theorem search_input_normalised:
  "searchTerm (snd (searchInput lc raw st)) = toLowerCase (trim raw)
   \<and> s_searchTerm (handleSearchInput raw ss) = toLowerCase (trim raw)
   \<and> (list_all isSpace u \<and> list_all isSpace v \<and> toLowerCase a = toLowerCase b
        \<longrightarrow> searchInput lc (u @ a @ v) st = searchInput lc b st
          \<and> handleSearchInput (u @ a @ v) ss = handleSearchInput b ss)
   \<and> (list_all isSpace raw
        \<longrightarrow> searchInput lc raw st = searchInput lc [] st
          \<and> searchInput lc raw st =
              (None, st\<lparr>searchTerm := [], currentWord := None,
                        treeContainer :=
                          renderDefaultTree (st\<lparr>searchTerm := [], currentWord := None\<rparr>) ''root'' 0,
                        definitionPanel := InnerHTML promptHTML, parentLink := None\<rparr>)
          \<and> handleSearchInput raw ss = handleSearchInput [] ss
          \<and> handleSearchInput raw ss =
              ss\<lparr>s_searchTerm := [],
                 s_treeContainer :=
                   (if getChildren (words ss) ''root'' \<noteq> []
                    then Children (map (createWordElement_s ss) (getChildren (words ss) ''root''))
                    else InnerHTML noWordsToDisplay)\<rparr>)"
proof -
  have a: "searchTerm (snd (searchInput lc raw st)) = toLowerCase (trim raw)"
    by (rule searchInput_searchTerm)
  have b: "s_searchTerm (handleSearchInput raw ss) = toLowerCase (trim raw)"
    by (simp add: handleSearchInput_def renderTree_s_searchTerm)
  have c: "list_all isSpace u \<and> list_all isSpace v \<and> toLowerCase a = toLowerCase b
        \<longrightarrow> searchInput lc (u @ a @ v) st = searchInput lc b st
          \<and> handleSearchInput (u @ a @ v) ss = handleSearchInput b ss"
    using normalise_pad_case [of u v a b]
    by (auto intro: searchInput_cong handleSearchInput_cong)
  have e: "trim [] = []" by (simp add: trim_def)
  have d: "list_all isSpace raw \<longrightarrow> searchInput lc raw st = searchInput lc [] st
      \<and> handleSearchInput raw ss = handleSearchInput [] ss"
    using e by (auto intro!: searchInput_cong handleSearchInput_cong simp: trim_all_space)
  from a b c d searchInput_blank [of raw lc st] handleSearchInput_blank [of raw ss]
  show ?thesis by blast
qed

theorem search_input_normalised_witness:
  "searchInput codeUnitCompare (''  '' @ ''BoLt'' @ '' '') freshPage = searchInput codeUnitCompare ''bolt'' freshPage
   \<and> handleSearchInput (''  '' @ ''BoLt'' @ '' '') freshPage_s = handleSearchInput ''bolt'' freshPage_s
   \<and> searchInput codeUnitCompare '' '' freshPage = searchInput codeUnitCompare [] freshPage
   \<and> handleSearchInput '' '' freshPage_s = handleSearchInput [] freshPage_s
   \<and> searchTerm (snd (searchInput codeUnitCompare '' BoLt '' freshPage)) = ''bolt''"
  using search_input_normalised [of codeUnitCompare "'' BoLt ''" freshPage freshPage_s "''  ''" "'' ''" "''BoLt''" "''bolt''"]
    search_input_normalised [of codeUnitCompare "'' ''" freshPage freshPage_s "[]" "[]" "[]" "[]"]
  by (simp add: isSpace_def toLowerCase_def toLowerChar_def trim_def)

section \<open>The default tree\<close>

lemma decimal_digits: "list_all isDigit (decimal n) \<and> digitsValue (decimal n) = n"
proof (induction n rule: decimal.induct)
  case (1 n)
  have d: "\<And>d. d < 10 \<Longrightarrow> isDigit (digitChar d) \<and> (of_char (digitChar d) :: nat) - 48 = d"
  proof -
    fix d :: nat assume "d < 10"
    then have "d \<in> {0,1,2,3,4,5,6,7,8,9}" by auto
    then show "isDigit (digitChar d) \<and> (of_char (digitChar d) :: nat) - 48 = d"
      by (auto simp: isDigit_def digitChar_def)
  qed
  show ?case
  proof (cases "n < 10")
    case True
    then show ?thesis using d [of n] by (subst decimal.simps, subst (2) decimal.simps) (simp add: digitsValue_def)
  next
    case False
    with 1 have ih: "list_all isDigit (decimal (n div 10))" "digitsValue (decimal (n div 10)) = n div 10"
      by auto
    have m: "n mod 10 < 10" by simp
    show ?thesis using False ih d [OF m]
      by (subst decimal.simps, subst (2) decimal.simps) (simp add: digitsValue_def)
  qed
qed

lemma nodes_word: "nodes (createWordElement st w a) = [createWordElement st w a]"
  by (simp add: createWordElement_def)

lemma nodes_more: "nodes (moreElement n) = [moreElement n]"
  by (simp add: moreElement_def)

lemma dataWord_word: "dataWord (createWordElement st w a) = Some w"
  by (simp add: createWordElement_def dataWord_def)

lemma dataWord_more: "dataWord (moreElement n) = None"
  by (simp add: moreElement_def dataWord_def)

lemma dataWord_level: "dataWord (El ''div'' [''level''] [] [] None ch) = None"
  by (simp add: dataWord_def)

lemma set_nodes_subLevel:
  "set (nodes (subLevel st gg)) =
     insert (subLevel st gg)
       (wordEl st ` set (take 3 gg)
        \<union> (if length gg > 3 then {moreElement (length gg - 3)} else {}))"
  by (auto simp: subLevel_def nodes_word nodes_more)

lemma set_nodes_levelDiv:
  "set (nodes (levelDiv st 0 grand)) =
     insert (levelDiv st 0 grand)
       (wordEl st ` set grand
        \<union> (\<Union>g\<in>set grand. if getChildren (wordsData st) (word g) \<noteq> []
                            then set (nodes (subLevel st (getChildren (wordsData st) (word g))))
                            else {}))"
  by (auto simp: levelDiv_def nodes_word Let_def split: if_splits)

lemma set_allNodes_default:
  "set (allNodes (renderDefaultTree st ''root'' 0)) =
     (\<Union>kid\<in>set (getChildren (wordsData st) ''root'').
        insert (wordEl st kid)
          (if getChildren (wordsData st) (word kid) \<noteq> []
           then set (nodes (levelDiv st 0 (getChildren (wordsData st) (word kid))))
           else {}))"
  by (auto simp: allNodes_def renderDefaultTree_def Let_def nodes_word split: if_splits)

lemma dataWord_subLevel: "dataWord (subLevel st gg) = None"
  by (simp add: subLevel_def dataWord_def)

lemma dataWord_levelDiv: "dataWord (levelDiv st l grand) = None"
  by (simp add: levelDiv_def dataWord_def)

lemma default_nodes:
  assumes "el \<in> set (allNodes (renderDefaultTree st ''root'' 0))" and "dataWord el = Some w"
  shows "(\<exists>e\<in>set (levelEntries (wordsData st) 0). w = word e)
       \<or> (\<exists>e\<in>set (levelEntries (wordsData st) 1). w = word e)
       \<or> (\<exists>e\<in>set (levelEntries (wordsData st) 2). w = word e)"
proof -
  let ?ws = "wordsData st"
  from assms(1) obtain kid where kid: "kid \<in> set (getChildren ?ws ''root'')"
    and el: "el = wordEl st kid \<or>
             (getChildren ?ws (word kid) \<noteq> [] \<and> el \<in> set (nodes (levelDiv st 0 (getChildren ?ws (word kid)))))"
    by (auto simp: set_allNodes_default split: if_splits)
  from el show ?thesis
  proof
    assume "el = wordEl st kid"
    with assms(2) kid show ?thesis by (auto simp: dataWord_word)
  next
    assume a: "getChildren ?ws (word kid) \<noteq> [] \<and> el \<in> set (nodes (levelDiv st 0 (getChildren ?ws (word kid))))"
    then consider (g) g where "g \<in> set (getChildren ?ws (word kid))" "el = wordEl st g"
      | (s) g where "g \<in> set (getChildren ?ws (word kid))"
          "el \<in> set (nodes (subLevel st (getChildren ?ws (word g))))"
      using assms(2) by (auto simp: set_nodes_levelDiv dataWord_levelDiv split: if_splits)
    then show ?thesis
    proof cases
      case g
      with assms(2) kid have "\<exists>e\<in>set (levelEntries ?ws 1). w = word e"
        by (auto simp: dataWord_word)
      then show ?thesis by blast
    next
      case s
      with assms(2) obtain c where "c \<in> set (take 3 (getChildren ?ws (word g)))" "el = wordEl st c"
        by (auto simp: set_nodes_subLevel dataWord_subLevel dataWord_more split: if_splits)
      with assms(2) kid s(1) have "\<exists>e\<in>set (levelEntries ?ws 2). w = word e"
        by (auto simp: dataWord_word eval_nat_numeral dest: in_set_takeD)
      then show ?thesis by blast
    qed
  qed
qed

lemma children_word: "children (createWordElement st w a) = []"
  by (simp add: createWordElement_def)

lemma children_more: "children (moreElement n) = []"
  by (simp add: moreElement_def)

lemma nodesAt_Suc_word: "nodesAt (Suc d) (createWordElement st w a) = []"
  by (simp add: children_word)

lemma nodesAt_Suc_more: "nodesAt (Suc d) (moreElement n) = []"
  by (simp add: children_more)

lemma nodesAt_El: "nodesAt (Suc d) (El t cs x as k ch) = concat (map (nodesAt d) ch)"
  by simp

lemma nodesAt1_subLevel: "nodesAt (Suc (Suc d)) (subLevel st gg) = []"
  by (simp add: subLevel_def nodesAt_El nodesAt_Suc_word nodesAt_Suc_more del: nodesAt.simps(2))

lemma nodesAt2_levelDiv: "nodesAt (Suc (Suc (Suc d))) (levelDiv st l grand) = []"
  by (auto simp: levelDiv_def nodesAt_El nodesAt_Suc_word nodesAt1_subLevel Let_def
      simp del: nodesAt.simps(2))

lemma default_depth: "contentNodesAt (Suc (Suc (Suc d))) (renderDefaultTree st p l) = []"
  by (simp add: contentNodesAt_def renderDefaultTree_def Let_def nodesAt_Suc_word nodesAt2_levelDiv
      del: nodesAt.simps(2))

text \<open>
  C2: every element of the default tree that carries a word carries the word of an
  entry at most three parent steps below the root sentinel (levels 0, 1, 2). An
  entry of a deeper level whose word is not also the word of an entry of levels 0
  to 2 is carried by no element; and no element is nested under three or more
  enclosing elements, whatever the depth and fan-out of the record set.
\<close>

theorem default_tree_three_levels:
  "(\<forall>el\<in>set (allNodes (renderDefaultTree st ''root'' 0)). \<forall>w. dataWord el = Some w \<longrightarrow>
       (\<exists>d<3. \<exists>e\<in>set (levelEntries (wordsData st) d). w = word e))
   \<and> (\<forall>n e. e \<in> set (levelEntries (wordsData st) n)
          \<and> (\<forall>d<3. word e \<notin> word ` set (levelEntries (wordsData st) d))
        \<longrightarrow> (\<forall>el\<in>set (allNodes (renderDefaultTree st ''root'' 0)). dataWord el \<noteq> Some (word e)))
   \<and> (\<forall>d\<ge>3. contentNodesAt d (renderDefaultTree st ''root'' 0) = [])"
proof -
  have a: "\<forall>el\<in>set (allNodes (renderDefaultTree st ''root'' 0)). \<forall>w. dataWord el = Some w \<longrightarrow>
       (\<exists>d<3. \<exists>e\<in>set (levelEntries (wordsData st) d). w = word e)"
  proof (intro ballI allI impI)
    fix el w
    assume "el \<in> set (allNodes (renderDefaultTree st ''root'' 0))" "dataWord el = Some w"
    from default_nodes [OF this]
    show "\<exists>d<3. \<exists>e\<in>set (levelEntries (wordsData st) d). w = word e"
    proof (elim disjE)
      assume "\<exists>e\<in>set (levelEntries (wordsData st) 0). w = word e"
      then show ?thesis by (intro exI [of _ "0::nat"]) simp
    next
      assume "\<exists>e\<in>set (levelEntries (wordsData st) 1). w = word e"
      then show ?thesis by (intro exI [of _ "1::nat"]) simp
    next
      assume "\<exists>e\<in>set (levelEntries (wordsData st) 2). w = word e"
      then show ?thesis by (intro exI [of _ "2::nat"]) simp
    qed
  qed
  have b: "\<forall>d\<ge>3. contentNodesAt d (renderDefaultTree st ''root'' 0) = []"
  proof (intro allI impI)
    fix d :: nat assume "3 \<le> d"
    then obtain k where "d = Suc (Suc (Suc k))"
      by (metis add_Suc_right add_Suc_shift le_Suc_ex numeral_3_eq_3 plus_nat.add_0)
    then show "contentNodesAt d (renderDefaultTree st ''root'' 0) = []"
      by (simp add: default_depth)
  qed
  have c: "\<forall>n e. e \<in> set (levelEntries (wordsData st) n)
          \<and> (\<forall>d<3. word e \<notin> word ` set (levelEntries (wordsData st) d))
        \<longrightarrow> (\<forall>el\<in>set (allNodes (renderDefaultTree st ''root'' 0)). dataWord el \<noteq> Some (word e))"
  proof (intro allI impI ballI notI)
    fix n e el
    assume e: "e \<in> set (levelEntries (wordsData st) n)
          \<and> (\<forall>d<3. word e \<notin> word ` set (levelEntries (wordsData st) d))"
      and el: "el \<in> set (allNodes (renderDefaultTree st ''root'' 0))"
      and dw: "dataWord el = Some (word e)"
    from a el dw obtain d e' where "d < 3" "e' \<in> set (levelEntries (wordsData st) d)" "word e = word e'"
      by blast
    with e show False by (metis imageI)
  qed
  from a b c show ?thesis by blast
qed

theorem default_tree_three_levels_witness:
  "\<lparr>word = ''M8x20'', defn = ''20 mm long'', tags = None, parent = Some ''M8''\<rparr>
      \<in> set (levelEntries sampleWords 3)
   \<and> Some ''M8x20'' \<notin> dataWord ` set (allNodes (renderDefaultTree (freshPage\<lparr>wordsData := sampleWords\<rparr>) ''root'' 0))
   \<and> contentNodesAt 3 (renderDefaultTree (freshPage\<lparr>wordsData := sampleWords\<rparr>) ''root'' 0) = []"
proof -
  let ?e = "\<lparr>word = ''M8x20'', defn = ''20 mm long'', tags = None, parent = Some ''M8''\<rparr>"
  have l0: "levelEntries sampleWords 0 = [\<lparr>word = ''Bolt'', defn = ''A fastener'', tags = Some [''hardware''], parent = Some ''root''\<rparr>]"
    by (simp add: sampleWords_def getChildren_def)
  have l1: "levelEntries sampleWords 1 = [\<lparr>word = ''Hex Bolt'', defn = ''Six-sided head'', tags = Some [], parent = Some ''Bolt''\<rparr>]"
    using l0 by (simp add: sampleWords_def getChildren_def)
  have l2: "map word (levelEntries sampleWords 2) = [''M6'', ''M8'', ''M10'', ''M12'', ''M16'']"
    using l1 by (simp add: eval_nat_numeral) (simp add: sampleWords_def getChildren_def)
  have l3: "levelEntries sampleWords 3 = [?e]"
    using l1 by (simp add: eval_nat_numeral) (simp add: sampleWords_def getChildren_def)
  have h: "\<forall>d<3. word ?e \<notin> word ` set (levelEntries (wordsData (freshPage\<lparr>wordsData := sampleWords\<rparr>)) d)"
  proof (intro allI impI)
    fix d :: nat assume "d < 3"
    then have "d = 0 \<or> d = 1 \<or> d = 2" by auto
    then show "word ?e \<notin> word ` set (levelEntries (wordsData (freshPage\<lparr>wordsData := sampleWords\<rparr>)) d)"
      using l0 l1 l2 by (auto simp flip: set_map)
  qed
  let ?st = "freshPage\<lparr>wordsData := sampleWords\<rparr>"
  note T = default_tree_three_levels [of ?st]
  have w: "wordsData ?st = sampleWords" by simp
  from T have "?e \<in> set (levelEntries (wordsData ?st) 3)
        \<and> (\<forall>d<3. word ?e \<notin> word ` set (levelEntries (wordsData ?st) d))
      \<longrightarrow> (\<forall>el\<in>set (allNodes (renderDefaultTree ?st ''root'' 0)). dataWord el \<noteq> Some (word ?e))"
    by blast
  with h l3 have a: "\<forall>el\<in>set (allNodes (renderDefaultTree ?st ''root'' 0)). dataWord el \<noteq> Some ''M8x20''"
    unfolding w by simp
  from T have b: "contentNodesAt 3 (renderDefaultTree ?st ''root'' 0) = []"
    by simp
  from a b l3 show ?thesis by (auto simp: image_iff)
qed

lemma subLevel_in_default:
  assumes "kid \<in> set (getChildren (wordsData st) ''root'')"
    and "g \<in> set (getChildren (wordsData st) (word kid))"
    and "getChildren (wordsData st) (word g) \<noteq> []"
  shows "subLevel st (getChildren (wordsData st) (word g)) \<in> set (allNodes (renderDefaultTree st ''root'' 0))"
proof -
  let ?ws = "wordsData st"
  have "subLevel st (getChildren ?ws (word g)) \<in> set (nodes (subLevel st (getChildren ?ws (word g))))"
    by (simp add: set_nodes_subLevel)
  with assms(2,3) have "subLevel st (getChildren ?ws (word g)) \<in> set (nodes (levelDiv st 0 (getChildren ?ws (word kid))))"
    unfolding set_nodes_levelDiv by (intro insertI2 UnI2) force
  moreover from assms(2) have "getChildren ?ws (word kid) \<noteq> []" by auto
  ultimately show ?thesis using assms(1)
    unfolding set_allNodes_default by force
qed

text \<open>
  C3: for a child \<open>g\<close> of a child of the root sentinel with more than three
  children, the default tree holds the division made of the elements of the first
  three children of \<open>g\<close>, in source order, followed by one marker. The marker's text
  is \<open>+N more\<close> and the ellipsis, \<open>N\<close> the number of omitted children in decimal
  digits; it has no \<open>data-word\<close> and no listener, so a click on it leaves the state
  as it is. With one to three children the division holds them all and no marker.
\<close>

theorem truncation_marker:
  "(kid \<in> set (getChildren (wordsData st) ''root'')
      \<and> g \<in> set (getChildren (wordsData st) (word kid))
      \<and> 3 < length (getChildren (wordsData st) (word g))
    \<longrightarrow> El ''div'' [''level''] [] [] None
          (map (wordEl st) (take 3 (getChildren (wordsData st) (word g)))
           @ [moreElement (length (getChildren (wordsData st) (word g)) - 3)])
        \<in> set (allNodes (renderDefaultTree st ''root'' 0)))
   \<and> (kid \<in> set (getChildren (wordsData st) ''root'')
      \<and> g \<in> set (getChildren (wordsData st) (word kid))
      \<and> getChildren (wordsData st) (word g) \<noteq> []
      \<and> length (getChildren (wordsData st) (word g)) \<le> 3
    \<longrightarrow> El ''div'' [''level''] [] [] None (map (wordEl st) (getChildren (wordsData st) (word g)))
        \<in> set (allNodes (renderDefaultTree st ''root'' 0)))
   \<and> ownText (moreElement n) = ''+'' @ decimal n @ '' more'' @ ellipsis
   \<and> list_all isDigit (decimal n) \<and> digitsValue (decimal n) = n
   \<and> onclick (moreElement n) = None \<and> dataWord (moreElement n) = None
   \<and> clickElement lc (moreElement n) st = (None, st)"
proof -
  let ?gg = "getChildren (wordsData st) (word g)"
  have a: "kid \<in> set (getChildren (wordsData st) ''root'')
      \<and> g \<in> set (getChildren (wordsData st) (word kid)) \<and> 3 < length ?gg
    \<longrightarrow> El ''div'' [''level''] [] [] None
          (map (wordEl st) (take 3 ?gg) @ [moreElement (length ?gg - 3)])
        \<in> set (allNodes (renderDefaultTree st ''root'' 0))"
  proof
    assume h: "kid \<in> set (getChildren (wordsData st) ''root'')
      \<and> g \<in> set (getChildren (wordsData st) (word kid)) \<and> 3 < length ?gg"
    then have "?gg \<noteq> []" by auto
    with h have "subLevel st ?gg \<in> set (allNodes (renderDefaultTree st ''root'' 0))"
      using subLevel_in_default [of kid st g] by blast
    with h show "El ''div'' [''level''] [] [] None
          (map (wordEl st) (take 3 ?gg) @ [moreElement (length ?gg - 3)])
        \<in> set (allNodes (renderDefaultTree st ''root'' 0))"
      by (simp add: subLevel_def)
  qed
  have b: "kid \<in> set (getChildren (wordsData st) ''root'')
      \<and> g \<in> set (getChildren (wordsData st) (word kid)) \<and> ?gg \<noteq> [] \<and> length ?gg \<le> 3
    \<longrightarrow> El ''div'' [''level''] [] [] None (map (wordEl st) ?gg)
        \<in> set (allNodes (renderDefaultTree st ''root'' 0))"
  proof
    assume h: "kid \<in> set (getChildren (wordsData st) ''root'')
      \<and> g \<in> set (getChildren (wordsData st) (word kid)) \<and> ?gg \<noteq> [] \<and> length ?gg \<le> 3"
    then have "subLevel st ?gg \<in> set (allNodes (renderDefaultTree st ''root'' 0))"
      using subLevel_in_default [of kid st g] by blast
    with h show "El ''div'' [''level''] [] [] None (map (wordEl st) ?gg)
        \<in> set (allNodes (renderDefaultTree st ''root'' 0))"
      by (simp add: subLevel_def)
  qed
  have c: "ownText (moreElement n) = ''+'' @ decimal n @ '' more'' @ ellipsis
     \<and> onclick (moreElement n) = None \<and> dataWord (moreElement n) = None
     \<and> clickElement lc (moreElement n) st = (None, st)"
    by (simp add: moreElement_def dataWord_def clickElement_def)
  from a b c decimal_digits [of n] show ?thesis by blast
qed

theorem truncation_marker_witness:
  "El ''div'' [''level''] [] [] None
     [El ''div'' [''word-node''] ''M6'' [(''data-word'', ''M6'')] (Some ''M6'') [],
      El ''div'' [''word-node''] ''M8'' [(''data-word'', ''M8'')] (Some ''M8'') [],
      El ''div'' [''word-node''] ''M10'' [(''data-word'', ''M10'')] (Some ''M10'') [],
      El ''div'' [''word-node''] (''+2 more'' @ ellipsis) [(''style.opacity'', ''0.5'')] None []]
     \<in> set (allNodes (renderDefaultTree (freshPage\<lparr>wordsData := sampleWords\<rparr>) ''root'' 0))"
  using truncation_marker [of "\<lparr>word = ''Bolt'', defn = ''A fastener'', tags = Some [''hardware''], parent = Some ''root''\<rparr>"
      "freshPage\<lparr>wordsData := sampleWords\<rparr>"
      "\<lparr>word = ''Hex Bolt'', defn = ''Six-sided head'', tags = Some [], parent = Some ''Bolt''\<rparr>" 2 codeUnitCompare]
  by (simp add: sampleWords_def getChildren_def freshPage_def createWordElement_def moreElement_def
      decimal.simps digitChar_def)


section \<open>Search ordering\<close>

lemma set_insertBy: "set (insertBy cmp x ys) = insert x (set ys)"
  by (induction ys) auto

lemma mset_insertBy: "mset (insertBy cmp x ys) = add_mset x (mset ys)"
  by (induction ys) auto

lemma mset_sortBy: "mset (sortBy cmp xs) = mset xs"
  by (induction xs) (auto simp: sortBy_def mset_insertBy)

lemma set_sortBy: "set (sortBy cmp xs) = set xs"
  using mset_sortBy [of cmp xs] by (rule mset_eq_setD)

lemma sorted_insertBy:
  assumes tot: "\<And>a b. a \<in> A \<Longrightarrow> b \<in> A \<Longrightarrow> \<not> cmp a b \<le> 0 \<Longrightarrow> cmp b a \<le> 0"
    and tr: "\<And>a b c. a \<in> A \<Longrightarrow> b \<in> A \<Longrightarrow> c \<in> A \<Longrightarrow> cmp a b \<le> 0 \<Longrightarrow> cmp b c \<le> 0 \<Longrightarrow> cmp a c \<le> 0"
    and x: "x \<in> A"
  shows "set ys \<subseteq> A \<Longrightarrow> sorted_wrt (\<lambda>a b. cmp a b \<le> 0) ys
         \<Longrightarrow> sorted_wrt (\<lambda>a b. cmp a b \<le> 0) (insertBy cmp x ys)"
proof (induction ys)
  case Nil
  show ?case by simp
next
  case (Cons y ys)
  from Cons.prems have yA: "y \<in> A" and ysA: "set ys \<subseteq> A"
    and yle: "\<forall>z\<in>set ys. cmp y z \<le> 0" and srt: "sorted_wrt (\<lambda>a b. cmp a b \<le> 0) ys"
    by simp_all
  show ?case
  proof (cases "cmp x y \<le> 0")
    case True
    have "\<forall>z\<in>set ys. cmp x z \<le> 0"
    proof
      fix z assume z: "z \<in> set ys"
      with yle have "cmp y z \<le> 0" by blast
      moreover from z ysA have "z \<in> A" by blast
      ultimately show "cmp x z \<le> 0" using True tr [of x y z] x yA by blast
    qed
    with True yle srt show ?thesis by simp
  next
    case False
    with tot [of x y] x yA have "cmp y x \<le> 0" by blast
    moreover from Cons.IH ysA srt have "sorted_wrt (\<lambda>a b. cmp a b \<le> 0) (insertBy cmp x ys)"
      by blast
    ultimately show ?thesis using False yle by (simp add: set_insertBy)
  qed
qed

lemma sorted_sortBy:
  assumes tot: "\<And>a b. a \<in> A \<Longrightarrow> b \<in> A \<Longrightarrow> \<not> cmp a b \<le> 0 \<Longrightarrow> cmp b a \<le> 0"
    and tr: "\<And>a b c. a \<in> A \<Longrightarrow> b \<in> A \<Longrightarrow> c \<in> A \<Longrightarrow> cmp a b \<le> 0 \<Longrightarrow> cmp b c \<le> 0 \<Longrightarrow> cmp a c \<le> 0"
    and "set xs \<subseteq> A"
  shows "sorted_wrt (\<lambda>a b. cmp a b \<le> 0) (sortBy cmp xs)"
  using assms(3)
proof (induction xs)
  case Nil
  then show ?case by (simp add: sortBy_def)
next
  case (Cons x xs)
  then have "sorted_wrt (\<lambda>a b. cmp a b \<le> 0) (sortBy cmp xs)" by simp
  moreover have "set (sortBy cmp xs) \<subseteq> A" using Cons.prems by (simp add: set_sortBy)
  moreover from Cons.prems have "x \<in> A" by simp
  ultimately have "sorted_wrt (\<lambda>a b. cmp a b \<le> 0) (insertBy cmp x (sortBy cmp xs))"
    using sorted_insertBy [of A cmp x "sortBy cmp xs"] tot tr by blast
  then show ?case by (simp add: sortBy_def)
qed

lemma searchCompare_total:
  assumes c: "consistentOn lc S" and a: "word a \<in> S" and b: "word b \<in> S"
    and n: "\<not> searchCompare lc t a b \<le> 0"
  shows "searchCompare lc t b a \<le> 0"
proof -
  from c a b have "(lc (word b) (word a) < 0) = (0 < lc (word a) (word b))"
    unfolding consistentOn_def by blast
  with n show ?thesis
    unfolding searchCompare_def Let_def by (auto split: if_splits)
qed

lemma searchCompare_trans:
  assumes c: "consistentOn lc S" and a: "word a \<in> S" and b: "word b \<in> S" and d: "word d \<in> S"
    and ab: "searchCompare lc t a b \<le> 0" and bd: "searchCompare lc t b d \<le> 0"
  shows "searchCompare lc t a d \<le> 0"
proof -
  from c a b d have "lc (word a) (word b) \<le> 0 \<and> lc (word b) (word d) \<le> 0 \<longrightarrow> lc (word a) (word d) \<le> 0"
    unfolding consistentOn_def by blast
  with ab bd show ?thesis
    unfolding searchCompare_def Let_def by (auto split: if_splits)
qed


lemma sorted_searchMatches:
  assumes c: "consistentOn lc (word ` set (wordsData st))"
  shows "sorted_wrt (\<lambda>a b. searchCompare lc (searchTerm st) a b \<le> 0) (searchMatches lc st)"
  unfolding searchMatches_def
proof (rule sorted_sortBy [where A = "set (wordsData st)"])
  fix a b
  assume a: "a \<in> set (wordsData st)" and b: "b \<in> set (wordsData st)"
    and n: "\<not> searchCompare lc (searchTerm st) a b \<le> 0"
  show "searchCompare lc (searchTerm st) b a \<le> 0"
    by (rule searchCompare_total [OF c imageI [OF a] imageI [OF b] n])
next
  fix a b d
  assume a: "a \<in> set (wordsData st)" and b: "b \<in> set (wordsData st)"
    and d: "d \<in> set (wordsData st)"
    and ab: "searchCompare lc (searchTerm st) a b \<le> 0"
    and bd: "searchCompare lc (searchTerm st) b d \<le> 0"
  show "searchCompare lc (searchTerm st) a d \<le> 0"
    by (rule searchCompare_trans [OF c imageI [OF a] imageI [OF b] imageI [OF d] ab bd])
next
  show "set (filter (\<lambda>w. includesStr (toLowerCase (word w)) (searchTerm st)) (wordsData st))
        \<subseteq> set (wordsData st)"
    by (rule filter_is_subset)
qed

lemma searchCompare_le:
  "searchCompare lc t a b \<le> 0 \<Longrightarrow>
   (startsWith (toLowerCase (word b)) t \<longrightarrow> startsWith (toLowerCase (word a)) t)
   \<and> (startsWith (toLowerCase (word a)) t = startsWith (toLowerCase (word b)) t
        \<longrightarrow> lc (word a) (word b) \<le> 0)"
  unfolding searchCompare_def Let_def
  by (cases "startsWith (toLowerCase (word a)) t"; cases "startsWith (toLowerCase (word b)) t"; simp)

lemma cuc_antisym: "(codeUnitCompare a b < 0) = (0 < codeUnitCompare b a)"
  by (induction a b rule: codeUnitCompare.induct) auto

lemma cuc_trans: "codeUnitCompare a b \<le> 0 \<Longrightarrow> codeUnitCompare b c \<le> 0 \<Longrightarrow> codeUnitCompare a c \<le> 0"
proof (induction a arbitrary: b c)
  case Nil
  then show ?case by (cases c) auto
next
  case (Cons x xs)
  then obtain y ys where b: "b = y # ys" by (cases b) auto
  with Cons.prems obtain z zs where c: "c = z # zs" by (cases c) auto
  from Cons.prems Cons.IH [of ys zs] show ?case unfolding b c
    by (auto split: if_splits)
qed

lemma consistentOn_codeUnitCompare: "consistentOn codeUnitCompare S"
  unfolding consistentOn_def using cuc_antisym cuc_trans by blast

text \<open>
  C4: for a \<open>localeCompare\<close> that is consistent on the words of the record set, the
  candidates of a search are exactly the entries whose lowercased word contains the
  stored term (the lowercased input, so the match is case-insensitive), each as
  often as it occurs; in the candidate list no entry that only contains the term
  stands before an entry that starts with it, and two entries of the same class
  stand in \<open>localeCompare\<close> order. For the term \<open>cat\<close>, \<open>catalog\<close> comes before
  \<open>indicator\<close> under any \<open>localeCompare\<close>.
\<close>

theorem search_candidates_sorted:
  assumes "consistentOn lc (word ` set (wordsData st))"
  shows "mset (searchMatches lc st)
           = mset (filter (\<lambda>w. includesStr (toLowerCase (word w)) (searchTerm st)) (wordsData st))
   \<and> (\<forall>t. searchTerm st = toLowerCase t \<longrightarrow>
          set (searchMatches lc st)
            = {w \<in> set (wordsData st). sublist (toLowerCase t) (toLowerCase (word w))})
   \<and> sorted_wrt (\<lambda>a b.
          (startsWith (toLowerCase (word b)) (searchTerm st)
             \<longrightarrow> startsWith (toLowerCase (word a)) (searchTerm st))
          \<and> (startsWith (toLowerCase (word a)) (searchTerm st)
                = startsWith (toLowerCase (word b)) (searchTerm st)
              \<longrightarrow> lc (word a) (word b) \<le> 0))
        (searchMatches lc st)
   \<and> map word (searchMatches lc
         (freshPage\<lparr>wordsData :=
             [\<lparr>word = ''indicator'', defn = [], tags = None, parent = Some ''root''\<rparr>,
              \<lparr>word = ''catalog'', defn = [], tags = None, parent = Some ''root''\<rparr>],
           searchTerm := ''cat''\<rparr>)) = [''catalog'', ''indicator'']"
proof -
  have a: "mset (searchMatches lc st)
           = mset (filter (\<lambda>w. includesStr (toLowerCase (word w)) (searchTerm st)) (wordsData st))"
    by (simp add: searchMatches_def mset_sortBy)
  have b: "\<forall>t. searchTerm st = toLowerCase t \<longrightarrow>
          set (searchMatches lc st)
            = {w \<in> set (wordsData st). sublist (toLowerCase t) (toLowerCase (word w))}"
    by (auto simp: searchMatches_def set_sortBy includesStr_sublist)
  have c: "sorted_wrt (\<lambda>a b.
          (startsWith (toLowerCase (word b)) (searchTerm st)
             \<longrightarrow> startsWith (toLowerCase (word a)) (searchTerm st))
          \<and> (startsWith (toLowerCase (word a)) (searchTerm st)
                = startsWith (toLowerCase (word b)) (searchTerm st)
              \<longrightarrow> lc (word a) (word b) \<le> 0))
        (searchMatches lc st)"
    by (rule sorted_wrt_mono_rel [OF _ sorted_searchMatches [OF assms]]) (rule searchCompare_le)
  have d: "map word (searchMatches lc
         (freshPage\<lparr>wordsData :=
             [\<lparr>word = ''indicator'', defn = [], tags = None, parent = Some ''root''\<rparr>,
              \<lparr>word = ''catalog'', defn = [], tags = None, parent = Some ''root''\<rparr>],
           searchTerm := ''cat''\<rparr>)) = [''catalog'', ''indicator'']"
    by (simp add: searchMatches_def sortBy_def searchCompare_def freshPage_def toLowerCase_def
        toLowerChar_def startsWith_def)
  from a b c d show ?thesis by blast
qed



theorem search_candidates_sorted_witness:
  "map word (searchMatches codeUnitCompare
      (freshPage\<lparr>wordsData :=
          [\<lparr>word = ''indicator'', defn = [], tags = None, parent = Some ''root''\<rparr>,
           \<lparr>word = ''Bolt'', defn = [], tags = None, parent = Some ''root''\<rparr>,
           \<lparr>word = ''cat'', defn = [], tags = None, parent = Some ''root''\<rparr>,
           \<lparr>word = ''Catalog'', defn = [], tags = None, parent = Some ''root''\<rparr>],
        searchTerm := ''cat''\<rparr>)) = [''Catalog'', ''cat'', ''indicator'']
   \<and> sorted_wrt (\<lambda>a b.
          (startsWith (toLowerCase (word b)) ''cat'' \<longrightarrow> startsWith (toLowerCase (word a)) ''cat'')
          \<and> (startsWith (toLowerCase (word a)) ''cat'' = startsWith (toLowerCase (word b)) ''cat''
              \<longrightarrow> codeUnitCompare (word a) (word b) \<le> 0))
        (searchMatches codeUnitCompare
          (freshPage\<lparr>wordsData :=
          [\<lparr>word = ''indicator'', defn = [], tags = None, parent = Some ''root''\<rparr>,
           \<lparr>word = ''Bolt'', defn = [], tags = None, parent = Some ''root''\<rparr>,
           \<lparr>word = ''cat'', defn = [], tags = None, parent = Some ''root''\<rparr>,
           \<lparr>word = ''Catalog'', defn = [], tags = None, parent = Some ''root''\<rparr>],
        searchTerm := ''cat''\<rparr>))"
proof -
  let ?st = "freshPage\<lparr>wordsData :=
          [\<lparr>word = ''indicator'', defn = [], tags = None, parent = Some ''root''\<rparr>,
           \<lparr>word = ''Bolt'', defn = [], tags = None, parent = Some ''root''\<rparr>,
           \<lparr>word = ''cat'', defn = [], tags = None, parent = Some ''root''\<rparr>,
           \<lparr>word = ''Catalog'', defn = [], tags = None, parent = Some ''root''\<rparr>],
        searchTerm := ''cat''\<rparr>"
  have c: "consistentOn codeUnitCompare (word ` set (wordsData ?st))"
    by (rule consistentOn_codeUnitCompare)
  have m: "map word (searchMatches codeUnitCompare ?st) = [''Catalog'', ''cat'', ''indicator'']"
    by (simp add: searchMatches_def sortBy_def searchCompare_def freshPage_def toLowerCase_def
        toLowerChar_def startsWith_def)
  have t: "searchTerm ?st = ''cat''" by simp
  from search_candidates_sorted [OF c] m show ?thesis unfolding t by blast
qed

section \<open>Search rendering\<close>

lemma groupMembers_push: "groupMembers (pushByParent acc k w) = insert (k, w) (groupMembers acc)"
  by (induction acc k w rule: pushByParent.induct) (auto simp: groupMembers_def)

lemma groupByParent_Inr:
  "(\<forall>m\<in>set ms. propertyKey (parent m) \<notin> set objectPrototypeKeys) \<Longrightarrow>
   \<exists>r. groupByParent acc ms = Inr r
       \<and> groupMembers r = groupMembers acc \<union> (\<lambda>m. (propertyKey (parent m), m)) ` set ms"
proof (induction ms arbitrary: acc)
  case Nil
  then show ?case by simp
next
  case (Cons m ms)
  then obtain r where "groupByParent (pushByParent acc (propertyKey (parent m)) m) ms = Inr r"
    and "groupMembers r = groupMembers (pushByParent acc (propertyKey (parent m)) m)
            \<union> (\<lambda>m. (propertyKey (parent m), m)) ` set ms"
    by (metis list.set_intros(2))
  with Cons.prems show ?case by (auto simp: groupMembers_push Let_def)
qed

lemma groupByParent_Inl:
  "m \<in> set ms \<Longrightarrow> propertyKey (parent m) \<in> set objectPrototypeKeys \<Longrightarrow>
   groupByParent acc ms = Inl TypeError"
  by (induction ms arbitrary: acc) (auto simp: Let_def)

lemma set_objectEntries: "set (objectEntries kvs) = set kvs"
  by (auto simp: objectEntries_def)

lemma hidden_createWordElement:
  "(''hidden'' \<in> set (classes (createWordElement st w a)))
     = (searchTerm st \<noteq> [] \<and> \<not> startsWith (toLowerCase w) (searchTerm st))"
  by (simp add: createWordElement_def)

lemma set_nodes_searchGroup:
  "set (concat (map nodes (searchGroup st f (p, cs)))) =
     {createWordElement st (headerWord st p) (Some p = f),
      El ''div'' [''level''] [] [] None
         (map (\<lambda>c. createWordElement st (word c) (Some (word c) = f)) cs)}
     \<union> (\<lambda>c. createWordElement st (word c) (Some (word c) = f)) ` set cs"
  by (auto simp: searchGroup_def headerWord_def nodes_word Let_def)

lemma set_allNodes_groups:
  "set (allNodes (Children (concat (map (searchGroup st f) kvs)))) =
     (\<Union>pc\<in>set kvs. set (concat (map nodes (searchGroup st f pc))))"
  by (simp add: allNodes_def)

lemma search_nodes_hidden:
  assumes t: "searchTerm st \<noteq> []"
    and el: "el \<in> set (allNodes (Children (concat (map (searchGroup st f) kvs))))"
    and dw: "dataWord el = Some w"
  shows "(''hidden'' \<in> set (classes el)) = (\<not> startsWith (toLowerCase w) (searchTerm st))"
proof -
  from el obtain p cs where "(p, cs) \<in> set kvs"
    and "el \<in> set (concat (map nodes (searchGroup st f (p, cs))))"
    unfolding set_allNodes_groups by force
  then have "el = createWordElement st (headerWord st p) (Some p = f)
      \<or> el = El ''div'' [''level''] [] [] None
                (map (\<lambda>c. createWordElement st (word c) (Some (word c) = f)) cs)
      \<or> (\<exists>c\<in>set cs. el = createWordElement st (word c) (Some (word c) = f))"
    unfolding set_nodes_searchGroup by blast
  with dw obtain w' a where e: "el = createWordElement st w' a"
    by (auto simp: dataWord_def)
  with dw have "w' = w" by (simp add: dataWord_word)
  with e t show ?thesis by (simp add: hidden_createWordElement)
qed

lemma search_nodes_present:
  assumes "(k, m) \<in> groupMembers kvs"
  shows "(\<exists>el\<in>set (allNodes (Children (concat (map (searchGroup st f) kvs)))).
            el = createWordElement st (word m) (Some (word m) = f))
       \<and> (\<exists>el\<in>set (allNodes (Children (concat (map (searchGroup st f) kvs)))).
            el = createWordElement st (headerWord st k) (Some k = f))"
proof -
  from assms obtain ws where kv: "(k, ws) \<in> set kvs" and m: "m \<in> set ws"
    by (auto simp: groupMembers_def)
  have "createWordElement st (word m) (Some (word m) = f)
          \<in> set (concat (map nodes (searchGroup st f (k, ws))))"
    and "createWordElement st (headerWord st k) (Some k = f)
          \<in> set (concat (map nodes (searchGroup st f (k, ws))))"
    unfolding set_nodes_searchGroup using m by blast+
  with kv show ?thesis unfolding set_allNodes_groups by blast
qed

text \<open>
  C5, amended: in search mode, when no candidate's parent is the name of a member of
  \<open>Object.prototype\<close>, the rendering returns, every candidate and the header of
  every candidate's group are in the output, and an element that carries a word has
  the \<open>hidden\<close> class exactly when that word, lowercased, does not start with the
  search term. So a candidate that starts with the term is never hidden, a candidate
  that only contains it is hidden though present, and a group header is hidden unless
  its own word starts with the term.
\<close>

theorem search_hidden_marking:
  assumes t: "searchTerm st \<noteq> []"
    and k: "\<forall>m\<in>set (searchMatches lc st). propertyKey (parent m) \<notin> set objectPrototypeKeys"
  shows "\<exists>c. renderSearchResults lc st f = Inr c
     \<and> (\<forall>el\<in>set (allNodes c). \<forall>w. dataWord el = Some w \<longrightarrow>
           (''hidden'' \<in> set (classes el)) = (\<not> startsWith (toLowerCase w) (searchTerm st)))
     \<and> (\<forall>m\<in>set (searchMatches lc st).
           createWordElement st (word m) (Some (word m) = f) \<in> set (allNodes c)
           \<and> createWordElement st (headerWord st (propertyKey (parent m)))
                (Some (propertyKey (parent m)) = f) \<in> set (allNodes c))"
proof (cases "searchMatches lc st = []")
  case True
  then show ?thesis by (simp add: renderSearchResults_def allNodes_def)
next
  case False
  from groupByParent_Inr [OF k, of "[]"] obtain r where r: "groupByParent [] (searchMatches lc st) = Inr r"
    and g: "groupMembers r = (\<lambda>m. (propertyKey (parent m), m)) ` set (searchMatches lc st)"
    by (auto simp: groupMembers_def)
  let ?c = "Children (concat (map (searchGroup st f) (objectEntries r)))"
  from False r have c: "renderSearchResults lc st f = Inr ?c"
    by (simp add: renderSearchResults_def)
  have h: "\<forall>el\<in>set (allNodes ?c). \<forall>w. dataWord el = Some w \<longrightarrow>
           (''hidden'' \<in> set (classes el)) = (\<not> startsWith (toLowerCase w) (searchTerm st))"
    using search_nodes_hidden [OF t] by blast
  have gm: "groupMembers (objectEntries r) = groupMembers r"
    by (simp add: groupMembers_def set_objectEntries)
  have p: "\<forall>m\<in>set (searchMatches lc st).
           createWordElement st (word m) (Some (word m) = f) \<in> set (allNodes ?c)
           \<and> createWordElement st (headerWord st (propertyKey (parent m)))
                (Some (propertyKey (parent m)) = f) \<in> set (allNodes ?c)"
  proof
    fix m assume "m \<in> set (searchMatches lc st)"
    with g gm have "(propertyKey (parent m), m) \<in> groupMembers (objectEntries r)" by blast
    from search_nodes_present [OF this, of st f]
    show "createWordElement st (word m) (Some (word m) = f) \<in> set (allNodes ?c)
           \<and> createWordElement st (headerWord st (propertyKey (parent m)))
                (Some (propertyKey (parent m)) = f) \<in> set (allNodes ?c)"
      by blast
  qed
  from c h p show ?thesis by blast
qed

lemma search_throws:
  assumes "m \<in> set (searchMatches lc st)" "propertyKey (parent m) \<in> set objectPrototypeKeys"
  shows "renderSearchResults lc st f = Inl TypeError"
proof -
  from assms(1) have "searchMatches lc st \<noteq> []" by auto
  with groupByParent_Inl [OF assms, of "[]"] show ?thesis
    by (simp add: renderSearchResults_def)
qed

lemma catWords_matches:
  "searchMatches codeUnitCompare (freshPage\<lparr>wordsData := catWords, searchTerm := ''cat''\<rparr>)
     = [\<lparr>word = ''catalog'', defn = ''A list'', tags = None, parent = Some ''root''\<rparr>,
        \<lparr>word = ''indicator'', defn = ''A sign'', tags = None, parent = Some ''root''\<rparr>]"
  by (simp add: searchMatches_def sortBy_def searchCompare_def freshPage_def toLowerCase_def
      toLowerChar_def startsWith_def catWords_def)

text \<open>
  C5, as stated, fails: \<open>indicator\<close> matches the term \<open>cat\<close> and is drawn with the
  \<open>hidden\<close> class.
\<close>

theorem search_hidden_counterexample:
  "includesStr (toLowerCase ''indicator'') ''cat''
   \<and> renderSearchResults codeUnitCompare
        (freshPage\<lparr>wordsData := catWords, searchTerm := ''cat''\<rparr>) None
     = Inr (Children
         [El ''div'' [''word-node'', ''hidden''] ''root'' [(''data-word'', ''root'')] (Some ''root'') [],
          El ''div'' [''level''] [] [] None
            [El ''div'' [''word-node''] ''catalog'' [(''data-word'', ''catalog'')] (Some ''catalog'') [],
             El ''div'' [''word-node'', ''hidden''] ''indicator'' [(''data-word'', ''indicator'')]
                (Some ''indicator'') []]])"
proof -
  have a: "includesStr (toLowerCase ''indicator'') ''cat''"
    by (simp add: toLowerCase_def toLowerChar_def startsWith_def)
  have g: "groupByParent []
       [\<lparr>word = ''catalog'', defn = ''A list'', tags = None, parent = Some ''root''\<rparr>,
        \<lparr>word = ''indicator'', defn = ''A sign'', tags = None, parent = Some ''root''\<rparr>]
     = Inr [(''root'',
       [\<lparr>word = ''catalog'', defn = ''A list'', tags = None, parent = Some ''root''\<rparr>,
        \<lparr>word = ''indicator'', defn = ''A sign'', tags = None, parent = Some ''root''\<rparr>])]"
    by (simp add: propertyKey_def objectPrototypeKeys_def Let_def)
  have e: "isArrayIndex ''root'' = False"
    by (simp add: isArrayIndex_def isDigit_def)
  have f: "findWord catWords ''root'' = None"
    by (simp add: findWord_def catWords_def toLowerCase_def toLowerChar_def)
  have b: "renderSearchResults codeUnitCompare
        (freshPage\<lparr>wordsData := catWords, searchTerm := ''cat''\<rparr>) None
     = Inr (Children
         [El ''div'' [''word-node'', ''hidden''] ''root'' [(''data-word'', ''root'')] (Some ''root'') [],
          El ''div'' [''level''] [] [] None
            [El ''div'' [''word-node''] ''catalog'' [(''data-word'', ''catalog'')] (Some ''catalog'') [],
             El ''div'' [''word-node'', ''hidden''] ''indicator'' [(''data-word'', ''indicator'')]
                (Some ''indicator'') []]])"
    unfolding renderSearchResults_def catWords_matches Let_def g
    by (simp add: objectEntries_def e searchGroup_def f createWordElement_def
        toLowerCase_def toLowerChar_def startsWith_def Let_def)
  from a b show ?thesis by blast
qed

theorem search_hidden_marking_witness:
  "\<exists>c. renderSearchResults codeUnitCompare
          (freshPage\<lparr>wordsData := catWords, searchTerm := ''cat''\<rparr>) None = Inr c
     \<and> El ''div'' [''word-node''] ''catalog'' [(''data-word'', ''catalog'')] (Some ''catalog'') []
          \<in> set (allNodes c)
     \<and> El ''div'' [''word-node'', ''hidden''] ''indicator'' [(''data-word'', ''indicator'')]
          (Some ''indicator'') [] \<in> set (allNodes c)
     \<and> El ''div'' [''word-node'', ''hidden''] ''root'' [(''data-word'', ''root'')] (Some ''root'') []
          \<in> set (allNodes c)"
proof -
  let ?st = "freshPage\<lparr>wordsData := catWords, searchTerm := ''cat''\<rparr>"
  have t: "searchTerm ?st \<noteq> []" by simp
  have k: "\<forall>m\<in>set (searchMatches codeUnitCompare ?st).
             propertyKey (parent m) \<notin> set objectPrototypeKeys"
    unfolding catWords_matches by (simp add: propertyKey_def objectPrototypeKeys_def)
  have f: "headerWord ?st ''root'' = ''root''"
    by (simp add: headerWord_def findWord_def catWords_def toLowerCase_def toLowerChar_def)
  from search_hidden_marking [OF t k, of None] obtain c
    where c: "renderSearchResults codeUnitCompare ?st None = Inr c"
      and p: "\<forall>m\<in>set (searchMatches codeUnitCompare ?st).
           createWordElement ?st (word m) (Some (word m) = None) \<in> set (allNodes c)
           \<and> createWordElement ?st (headerWord ?st (propertyKey (parent m)))
                (Some (propertyKey (parent m)) = None) \<in> set (allNodes c)"
    by blast
  from p have "createWordElement ?st ''catalog'' False \<in> set (allNodes c)
      \<and> createWordElement ?st ''indicator'' False \<in> set (allNodes c)
      \<and> createWordElement ?st ''root'' False \<in> set (allNodes c)"
    unfolding catWords_matches using f by (simp add: propertyKey_def)
  then have "El ''div'' [''word-node''] ''catalog'' [(''data-word'', ''catalog'')] (Some ''catalog'') []
          \<in> set (allNodes c)
     \<and> El ''div'' [''word-node'', ''hidden''] ''indicator'' [(''data-word'', ''indicator'')]
          (Some ''indicator'') [] \<in> set (allNodes c)
     \<and> El ''div'' [''word-node'', ''hidden''] ''root'' [(''data-word'', ''root'')] (Some ''root'') []
          \<in> set (allNodes c)"
    by (simp add: createWordElement_def toLowerCase_def toLowerChar_def startsWith_def)
  with c show ?thesis by blast
qed

section \<open>Definition content\<close>

lemma nodes_chips:
  "concat (map nodes (map (\<lambda>t. El ''span'' [''tag''] t [] None []) ts))
     = map (\<lambda>t. El ''span'' [''tag''] t [] None []) ts"
  by (induction ts) auto

lemma hasParentLink_iff:
  "hasParentLink w = (\<not> (parent w = None \<or> parent w = Some [] \<or> parent w = Some ''root''))"
  by (auto simp: hasParentLink_def split: option.splits)

lemma dom_heading: "textsWhere (\<lambda>el. tagName el = ''h2'') (renderDefinitionPanel_dom (Some w)) = [word w]"
  by (simp add: textsWhere_def renderDefinitionPanel_dom_def allNodes_def nodes_chips filter_map comp_def)

lemma dom_body:
  "textsWhere (\<lambda>el. classes el = [''definition-text'']) (renderDefinitionPanel_dom (Some w)) = [defn w]"
  by (simp add: textsWhere_def renderDefinitionPanel_dom_def allNodes_def nodes_chips filter_map comp_def)

lemma dom_chips:
  "textsWhere (\<lambda>el. classes el = [''tag'']) (renderDefinitionPanel_dom (Some w)) = tagList w"
  by (simp add: textsWhere_def renderDefinitionPanel_dom_def allNodes_def nodes_chips filter_map comp_def)

lemma dom_strip:
  "(\<exists>el\<in>set (allNodes (renderDefinitionPanel_dom (Some w))). classes el = [''tags-container''])
     = (tagList w \<noteq> [])"
  by (auto simp: renderDefinitionPanel_dom_def allNodes_def nodes_chips)

lemma dom_link:
  "map (\<lambda>el. (ownText el, map_of (attrs el) ''data-parent''))
       (filter (\<lambda>el. classes el = [''parent-link'']) (allNodes (renderDefinitionPanel_dom (Some w))))
     = (if hasParentLink w then [(the (parent w), parent w)] else [])"
  by (auto simp: renderDefinitionPanel_dom_def allNodes_def nodes_chips filter_map comp_def hasParentLink_def
      split: option.splits)

lemma renderTree_frame:
  "snd (renderTree lc f st) = st\<lparr>treeContainer := treeContainer (snd (renderTree lc f st))\<rparr>"
  by (simp add: renderTree_def split: sum.splits)

lemma renderTree_fields:
  "wordsData (snd (renderTree lc f st)) = wordsData st"
  "currentWord (snd (renderTree lc f st)) = currentWord st"
  "definitionPanel (snd (renderTree lc f st)) = definitionPanel st"
  "parentLink (snd (renderTree lc f st)) = parentLink st"
  by (simp_all add: renderTree_def split: sum.splits)

lemma selectWord_found:
  assumes "findWord (wordsData st) x = Some w"
  shows "definitionPanel (snd (selectWord lc x st)) = InnerHTML (definitionTemplate w)"
    and "parentLink (snd (selectWord lc x st))
           = (if hasParentLink w then Some (dataParent (the (parent w))) else None)"
    and "currentWord (snd (selectWord lc x st)) = Some x"
    and "wordsData (snd (selectWord lc x st)) = wordsData st"
    and "searchTerm (snd (selectWord lc x st)) = searchTerm st"
  using assms by (simp_all add: selectWord_def Let_def renderTree_fields renderTree_searchTerm)

lemma dataParent_plain: "plainText p \<Longrightarrow> dataParent p = p"
  unfolding dataParent_def plainText_def by (induction p) auto

lemma plainEntry_parent: "plainEntry w \<Longrightarrow> parent w = Some p \<Longrightarrow> dataParent p = p"
  by (simp add: plainEntry_def dataParent_plain)

text \<open>
  C6, amended: for every entry, the renderer that builds the panel from elements
  produces a heading that is the entry's word, a body that is its definition, one tag
  chip per tag in source order inside a tag strip that is left out when there is no
  tag, and a \<open>Parent:\<close> link carrying the parent, which is left out exactly when the
  parent is absent, is the empty string, or is the root sentinel \<open>root\<close>. The two
  renderers that assign HTML text (the HTML builder of \<open>script.js\<close>, the template of
  \<open>selectWord\<close>) write the same pieces as markup, left out under the same
  conditions; this is stated for the entries whose strings hold no \<open><\<close>, \<open>&\<close>,
  double quote, NUL or carriage return, for which the markup parses to those pieces
  and the link that \<open>selectWord\<close> reads back carries the parent. Nothing is stated
  about what the browser makes of other entries.
\<close>

theorem definition_content:
  "textsWhere (\<lambda>el. tagName el = ''h2'') (renderDefinitionPanel_dom (Some w)) = [word w]
   \<and> textsWhere (\<lambda>el. classes el = [''definition-text'']) (renderDefinitionPanel_dom (Some w)) = [defn w]
   \<and> textsWhere (\<lambda>el. classes el = [''tag'']) (renderDefinitionPanel_dom (Some w)) = tagList w
   \<and> (\<exists>el\<in>set (allNodes (renderDefinitionPanel_dom (Some w))). classes el = [''tags-container''])
        = (tagList w \<noteq> [])
   \<and> map (\<lambda>el. (ownText el, map_of (attrs el) ''data-parent''))
        (filter (\<lambda>el. classes el = [''parent-link'']) (allNodes (renderDefinitionPanel_dom (Some w))))
       = (if parent w = None \<or> parent w = Some [] \<or> parent w = Some ''root'' then []
          else [(the (parent w), parent w)])
   \<and> (plainEntry w \<longrightarrow>
        generateDefinitionHTML (Some w)
          = ''<h2>'' @ word w @ ''</h2><p class=\"definition-text\">'' @ defn w @ ''</p>''
            @ (if tagList w = [] then []
               else ''<div class=\"tags-container\">'' @ concat (map tagChip (tagList w)) @ ''</div>'')
            @ (if parent w = None \<or> parent w = Some [] \<or> parent w = Some ''root'' then []
               else parentLine (the (parent w)))
        \<and> definitionTemplate w
          = nl 16 @ ''<h2>'' @ word w @ ''</h2>''
            @ nl 16 @ ''<p class=\"definition-text\">'' @ defn w @ ''</p>''
            @ nl 16
            @ (if tagList w = [] then []
               else ''<div class=\"tags-container\">'' @ nl 25 @ concat (map tagChip (tagList w))
                    @ nl 23 @ ''</div>'')
            @ nl 16
            @ (if parent w = None \<or> parent w = Some [] \<or> parent w = Some ''root'' then []
               else parentLine (the (parent w)))
            @ nl 12
        \<and> (findWord (wordsData st) x = Some w \<longrightarrow>
             definitionPanel (snd (selectWord lc x st)) = InnerHTML (definitionTemplate w)
             \<and> parentLink (snd (selectWord lc x st))
                 = (if parent w = None \<or> parent w = Some [] \<or> parent w = Some ''root'' then None
                    else parent w)))"
proof -
  have g: "generateDefinitionHTML (Some w)
       = ''<h2>'' @ word w @ ''</h2><p class=\"definition-text\">'' @ defn w @ ''</p>''
         @ (if tagList w = [] then []
            else ''<div class=\"tags-container\">'' @ concat (map tagChip (tagList w)) @ ''</div>'')
         @ (if parent w = None \<or> parent w = Some [] \<or> parent w = Some ''root'' then []
            else parentLine (the (parent w)))"
    by (simp add: generateDefinitionHTML_def hasParentLink_iff)
  have t: "definitionTemplate w
       = nl 16 @ ''<h2>'' @ word w @ ''</h2>''
         @ nl 16 @ ''<p class=\"definition-text\">'' @ defn w @ ''</p>''
         @ nl 16
         @ (if tagList w = [] then []
            else ''<div class=\"tags-container\">'' @ nl 25 @ concat (map tagChip (tagList w))
                 @ nl 23 @ ''</div>'')
         @ nl 16
         @ (if parent w = None \<or> parent w = Some [] \<or> parent w = Some ''root'' then []
            else parentLine (the (parent w)))
         @ nl 12"
    by (simp add: definitionTemplate_def hasParentLink_iff)
  have l: "map (\<lambda>el. (ownText el, map_of (attrs el) ''data-parent''))
        (filter (\<lambda>el. classes el = [''parent-link'']) (allNodes (renderDefinitionPanel_dom (Some w))))
       = (if parent w = None \<or> parent w = Some [] \<or> parent w = Some ''root'' then []
          else [(the (parent w), parent w)])"
    unfolding dom_link by (simp add: hasParentLink_iff)
  have s: "plainEntry w \<longrightarrow> findWord (wordsData st) x = Some w \<longrightarrow>
        definitionPanel (snd (selectWord lc x st)) = InnerHTML (definitionTemplate w)
        \<and> parentLink (snd (selectWord lc x st))
            = (if parent w = None \<or> parent w = Some [] \<or> parent w = Some ''root'' then None
               else parent w)"
  proof (intro impI)
    assume p: "plainEntry w" and f: "findWord (wordsData st) x = Some w"
    show "definitionPanel (snd (selectWord lc x st)) = InnerHTML (definitionTemplate w)
        \<and> parentLink (snd (selectWord lc x st))
            = (if parent w = None \<or> parent w = Some [] \<or> parent w = Some ''root'' then None
               else parent w)"
    proof (cases "parent w")
      case None
      with selectWord_found(1,2) [OF f, of lc] show ?thesis by (simp add: hasParentLink_iff)
    next
      case (Some q)
      with p have "dataParent q = q" by (rule plainEntry_parent)
      with Some selectWord_found(1,2) [OF f, of lc] show ?thesis by (simp add: hasParentLink_iff)
    qed
  qed
  from g t l s dom_heading [of w] dom_body [of w] dom_chips [of w] dom_strip [of w]
  show ?thesis by blast
qed

text \<open>
  C6, as stated, fails on the parent link: a parent that is present as the empty
  string is neither absent nor the root sentinel, and no renderer draws a link for it.
\<close>

theorem definition_content_counterexample:
  "parent \<lparr>word = ''Bolt'', defn = ''A fastener'', tags = Some [''hardware''], parent = Some []\<rparr>
      \<noteq> None
   \<and> parent \<lparr>word = ''Bolt'', defn = ''A fastener'', tags = Some [''hardware''], parent = Some []\<rparr>
      \<noteq> Some ''root''
   \<and> generateDefinitionHTML
        (Some \<lparr>word = ''Bolt'', defn = ''A fastener'', tags = Some [''hardware''], parent = Some []\<rparr>)
      = ''<h2>Bolt</h2><p class=\"definition-text\">A fastener</p><div class=\"tags-container\"><span class=\"tag\">hardware</span></div>''
   \<and> renderDefinitionPanel_dom
        (Some \<lparr>word = ''Bolt'', defn = ''A fastener'', tags = Some [''hardware''], parent = Some []\<rparr>)
      = Children
          [El ''h2'' [] ''Bolt'' [] None [],
           El ''p'' [''definition-text''] ''A fastener'' [] None [],
           El ''div'' [''tags-container''] [] [] None [El ''span'' [''tag''] ''hardware'' [] None []]]
   \<and> definitionTemplate
        \<lparr>word = ''Bolt'', defn = ''A fastener'', tags = Some [''hardware''], parent = Some []\<rparr>
      = nl 16 @ ''<h2>Bolt</h2>'' @ nl 16 @ ''<p class=\"definition-text\">A fastener</p>''
        @ nl 16 @ ''<div class=\"tags-container\">'' @ nl 25 @ ''<span class=\"tag\">hardware</span>''
        @ nl 23 @ ''</div>'' @ nl 16 @ nl 12"
  by (simp add: generateDefinitionHTML_def renderDefinitionPanel_dom_def definitionTemplate_def
      tagList_def hasParentLink_def tagChip_def)

theorem definition_content_witness:
  "generateDefinitionHTML
      (Some \<lparr>word = ''Hex Bolt'', defn = ''Six-sided head'', tags = Some [], parent = Some ''Bolt''\<rparr>)
     = ''<h2>Hex Bolt</h2><p class=\"definition-text\">Six-sided head</p><p>Parent: <a href=\"#\" class=\"parent-link\" data-parent=\"Bolt\">Bolt</a></p>''
   \<and> definitionPanel (snd (selectWord codeUnitCompare ''hex bolt'' (freshPage\<lparr>wordsData := sampleWords\<rparr>)))
     = InnerHTML (nl 16 @ ''<h2>Hex Bolt</h2>'' @ nl 16
         @ ''<p class=\"definition-text\">Six-sided head</p>'' @ nl 16 @ nl 16
         @ ''<p>Parent: <a href=\"#\" class=\"parent-link\" data-parent=\"Bolt\">Bolt</a></p>'' @ nl 12)
   \<and> parentLink (snd (selectWord codeUnitCompare ''hex bolt'' (freshPage\<lparr>wordsData := sampleWords\<rparr>)))
     = Some ''Bolt''
   \<and> textsWhere (\<lambda>el. classes el = [''tag''])
        (renderDefinitionPanel_dom
          (Some \<lparr>word = ''Bolt'', defn = ''A fastener'', tags = Some [''hardware''], parent = Some ''root''\<rparr>))
     = [''hardware'']"
proof -
  have f: "findWord (wordsData (freshPage\<lparr>wordsData := sampleWords\<rparr>)) ''hex bolt''
      = Some \<lparr>word = ''Hex Bolt'', defn = ''Six-sided head'', tags = Some [], parent = Some ''Bolt''\<rparr>"
    by (simp add: findWord_def sampleWords_def toLowerCase_def toLowerChar_def)
  have p: "plainEntry \<lparr>word = ''Hex Bolt'', defn = ''Six-sided head'', tags = Some [], parent = Some ''Bolt''\<rparr>"
    by (simp add: plainEntry_def plainText_def tagList_def)
  from definition_content
         [of "\<lparr>word = ''Hex Bolt'', defn = ''Six-sided head'', tags = Some [], parent = Some ''Bolt''\<rparr>"
             "freshPage\<lparr>wordsData := sampleWords\<rparr>" "''hex bolt''" codeUnitCompare]
       definition_content
         [of "\<lparr>word = ''Bolt'', defn = ''A fastener'', tags = Some [''hardware''], parent = Some ''root''\<rparr>"
             freshPage "[]" codeUnitCompare]
       f p
  show ?thesis by (simp add: tagList_def parentLine_def)
qed

section \<open>Prefetch\<close>

lemma generateDefinitionHTML_truthy: "truthy (Some (generateDefinitionHTML (Some w)))"
  by (simp add: truthy_def generateDefinitionHTML_def)

lemma generateDefinitionHTML_None: "\<not> truthy (Some (generateDefinitionHTML None))"
  by (simp add: truthy_def generateDefinitionHTML_def)

lemma renderTree_s_frame:
  "prefetchedDefinition (renderTree_s st) = prefetchedDefinition st"
  "s_currentWord (renderTree_s st) = s_currentWord st"
  "s_definitionPanel (renderTree_s st) = s_definitionPanel st"
  "words (renderTree_s st) = words st"
  by (simp_all add: renderTree_s_def Let_def)

lemma renderDefinitionPanel_direct:
  "\<not> truthy (prefetchedDefinition st) \<Longrightarrow>
   s_definitionPanel (renderDefinitionPanel st) = directContent (s_currentWord st)"
  by (simp add: renderDefinitionPanel_def directContent_def split: option.splits)

lemma renderDefinitionPanel_cached:
  "truthy (prefetchedDefinition st) \<Longrightarrow>
   s_definitionPanel (renderDefinitionPanel st) = InnerHTML (the (prefetchedDefinition st))
   \<and> prefetchedDefinition (renderDefinitionPanel st) = None"
  by (simp add: renderDefinitionPanel_def)

lemma renderDefinitionPanel_one_shot: "\<not> truthy (prefetchedDefinition (renderDefinitionPanel st))"
  by (simp add: renderDefinitionPanel_def truthy_def split: option.splits)

lemma click_direct:
  "\<not> truthy (prefetchedDefinition st) \<Longrightarrow>
   s_definitionPanel (handleTreeClick (WordNode x) st) = directContent (findWord (words st) x)
   \<and> s_definitionPanel (handleTreeClick (ParentLink x) st) = directContent (findWord (words st) x)"
  by (simp add: handleTreeClick_def render_def renderDefinitionPanel_direct renderTree_s_frame)

lemma hover_click:
  "s_definitionPanel (handleTreeClick (WordNode x) (handleTreeMouseover (WordNode x) st))
     = directContent (findWord (words st) x)"
proof (cases "findWord (words st) x")
  case None
  then show ?thesis
    by (simp add: handleTreeClick_def handleTreeMouseover_def render_def renderDefinitionPanel_direct
        renderTree_s_frame generateDefinitionHTML_None)
next
  case (Some w)
  then show ?thesis
    using renderDefinitionPanel_cached
      [of "renderTree_s (st\<lparr>prefetchedDefinition := Some (generateDefinitionHTML (Some w)),
                              s_currentWord := Some w\<rparr>)"]
    by (simp add: handleTreeClick_def handleTreeMouseover_def render_def
        renderTree_s_frame generateDefinitionHTML_truthy directContent_def)
qed

text \<open>
  The click handler itself does not ask which node the cached string was computed
  for: whatever is cached is shown. The equivalence below therefore concerns a click
  on the node that was hovered, and a click after the hover-out.
\<close>

lemma click_shows_cache:
  "truthy (prefetchedDefinition st) \<Longrightarrow>
   s_definitionPanel (handleTreeClick (WordNode y) st) = InnerHTML (the (prefetchedDefinition st))"
  using renderDefinitionPanel_cached [of "renderTree_s (st\<lparr>s_currentWord := findWord (words st) y\<rparr>)"]
  by (simp add: handleTreeClick_def render_def renderTree_s_frame)

text \<open>
  C8: hovering a node and then clicking it shows exactly the content the renderer
  computes from the selected entry without a cache; rendering consumes a cached
  string once and leaves the cache empty; the hover-out empties the cache, and a
  click that follows it, on any node or parent link, shows the content computed
  from the entry it selects.
\<close>

theorem prefetch_equivalent:
  "s_definitionPanel (handleTreeClick (WordNode x) (handleTreeMouseover (WordNode x) st))
     = directContent (findWord (words st) x)
   \<and> s_definitionPanel (handleTreeClick (WordNode x) (st\<lparr>prefetchedDefinition := None\<rparr>))
     = directContent (findWord (words st) x)
   \<and> s_currentWord (handleTreeClick (WordNode x) (handleTreeMouseover (WordNode x) st))
     = findWord (words st) x
   \<and> \<not> truthy (prefetchedDefinition (handleTreeClick (WordNode x) (handleTreeMouseover (WordNode x) st)))
   \<and> (truthy (prefetchedDefinition st) \<longrightarrow>
        s_definitionPanel (renderDefinitionPanel st) = InnerHTML (the (prefetchedDefinition st))
        \<and> prefetchedDefinition (renderDefinitionPanel st) = None)
   \<and> \<not> truthy (prefetchedDefinition (renderDefinitionPanel st))
   \<and> prefetchedDefinition (handleTreeMouseout (WordNode x) st) = None
   \<and> s_definitionPanel (handleTreeClick (WordNode y) (handleTreeMouseout (WordNode x) st))
     = directContent (findWord (words st) y)
   \<and> s_definitionPanel (handleTreeClick (ParentLink y) (handleTreeMouseout (WordNode x) st))
     = directContent (findWord (words st) y)"
proof -
  have a: "s_definitionPanel (handleTreeClick (WordNode x) (st\<lparr>prefetchedDefinition := None\<rparr>))
     = directContent (findWord (words st) x)"
    using click_direct [of "st\<lparr>prefetchedDefinition := None\<rparr>" x] by (simp add: truthy_def)
  have b: "s_currentWord (handleTreeClick (WordNode x) (handleTreeMouseover (WordNode x) st))
     = findWord (words st) x"
    by (simp add: handleTreeClick_def handleTreeMouseover_def render_def renderDefinitionPanel_def
        renderTree_s_frame split: option.splits)
  have c: "\<not> truthy (prefetchedDefinition (handleTreeClick (WordNode x) (handleTreeMouseover (WordNode x) st)))"
    by (simp add: handleTreeClick_def render_def renderDefinitionPanel_one_shot)
  have d: "prefetchedDefinition (handleTreeMouseout (WordNode x) st) = None"
    by (simp add: handleTreeMouseout_def)
  have e: "s_definitionPanel (handleTreeClick (WordNode y) (handleTreeMouseout (WordNode x) st))
     = directContent (findWord (words st) y)
   \<and> s_definitionPanel (handleTreeClick (ParentLink y) (handleTreeMouseout (WordNode x) st))
     = directContent (findWord (words st) y)"
    using click_direct [of "handleTreeMouseout (WordNode x) st" y] d
    by (simp add: truthy_def) (simp add: handleTreeMouseout_def)
  from a b c d e hover_click [of x st] renderDefinitionPanel_cached [of st]
    renderDefinitionPanel_one_shot [of st]
  show ?thesis by blast
qed

theorem prefetch_equivalent_witness:
  "s_definitionPanel
      (handleTreeClick (WordNode ''Hex Bolt'')
        (handleTreeMouseover (WordNode ''Hex Bolt'') (freshPage_s\<lparr>words := sampleWords\<rparr>)))
     = InnerHTML ''<h2>Hex Bolt</h2><p class=\"definition-text\">Six-sided head</p><p>Parent: <a href=\"#\" class=\"parent-link\" data-parent=\"Bolt\">Bolt</a></p>''
   \<and> s_definitionPanel
      (handleTreeClick (WordNode ''Bolt'')
        (handleTreeMouseout (WordNode ''Hex Bolt'')
          (handleTreeMouseover (WordNode ''Hex Bolt'') (freshPage_s\<lparr>words := sampleWords\<rparr>))))
     = InnerHTML ''<h2>Bolt</h2><p class=\"definition-text\">A fastener</p><div class=\"tags-container\"><span class=\"tag\">hardware</span></div>''"
proof -
  let ?st = "freshPage_s\<lparr>words := sampleWords\<rparr>"
  have h: "findWord sampleWords ''Hex Bolt''
      = Some \<lparr>word = ''Hex Bolt'', defn = ''Six-sided head'', tags = Some [], parent = Some ''Bolt''\<rparr>"
    by (simp add: findWord_def sampleWords_def toLowerCase_def toLowerChar_def)
  have b: "findWord sampleWords ''Bolt''
      = Some \<lparr>word = ''Bolt'', defn = ''A fastener'', tags = Some [''hardware''], parent = Some ''root''\<rparr>"
    by (simp add: findWord_def sampleWords_def toLowerCase_def toLowerChar_def)
  have w: "words (handleTreeMouseover (WordNode ''Hex Bolt'') ?st) = sampleWords"
    by (simp add: handleTreeMouseover_def)
  from prefetch_equivalent [of "''Hex Bolt''" ?st "''Bolt''"]
       prefetch_equivalent [of "''Hex Bolt''" "handleTreeMouseover (WordNode ''Hex Bolt'') ?st" "''Bolt''"]
  show ?thesis unfolding w
    by (simp add: h b directContent_def generateDefinitionHTML_def tagList_def hasParentLink_def
        parentLine_def tagChip_def)
qed

section \<open>Selection and parent navigation\<close>

lemma selectWord_miss:
  "findWord (wordsData st) x = None \<Longrightarrow> selectWord lc x st = (None, st\<lparr>currentWord := Some x\<rparr>)"
  by (simp add: selectWord_def)

text \<open>
  In \<open>script.js\<close> the tree holds elements of entries only, so a click that is heard
  there always finds its word; the tree script also draws stub headers, whose word
  may match no entry.
\<close>

lemma findWord_member: "w \<in> set ws \<Longrightarrow> findWord ws (word w) \<noteq> None"
  by (auto simp: findWord_def find_None_iff)

lemma orphanWords_Ghost: "findWord orphanWords ''Ghost'' = None"
  by (simp add: findWord_def orphanWords_def toLowerCase_def toLowerChar_def)

lemma orphanWords_Orphan:
  "findWord orphanWords ''Orphan''
     = Some \<lparr>word = ''Orphan'', defn = ''No parent entry'', tags = None, parent = Some ''Ghost''\<rparr>"
  by (simp add: findWord_def orphanWords_def toLowerCase_def toLowerChar_def)

lemma searchInput_fields:
  "wordsData (snd (searchInput lc raw st)) = wordsData st"
  by (simp add: searchInput_def Let_def renderTree_def split: sum.splits)

lemma orphan_search_tree:
  assumes w: "wordsData st = orphanWords" and t: "searchTerm st = ''orph''"
  shows "renderSearchResults lc st f
     = Inr (Children
         [El ''div'' ([''word-node''] @ (if Some ''Ghost'' = f then [''active''] else []) @ [''hidden''])
             ''Ghost'' [(''data-word'', ''Ghost'')] (Some ''Ghost'') [],
          El ''div'' [''level''] [] [] None
            [El ''div'' ([''word-node''] @ (if Some ''Orphan'' = f then [''active''] else []))
                ''Orphan'' [(''data-word'', ''Orphan'')] (Some ''Orphan'') []]])"
proof -
  have m: "searchMatches lc st
     = [\<lparr>word = ''Orphan'', defn = ''No parent entry'', tags = None, parent = Some ''Ghost''\<rparr>]"
    by (simp add: searchMatches_def w t sortBy_def orphanWords_def toLowerCase_def toLowerChar_def
        startsWith_def)
  have g: "groupByParent []
       [\<lparr>word = ''Orphan'', defn = ''No parent entry'', tags = None, parent = Some ''Ghost''\<rparr>]
     = Inr [(''Ghost'',
         [\<lparr>word = ''Orphan'', defn = ''No parent entry'', tags = None, parent = Some ''Ghost''\<rparr>])]"
    by (simp add: propertyKey_def objectPrototypeKeys_def Let_def)
  have e: "isArrayIndex ''Ghost'' = False"
    by (simp add: isArrayIndex_def isDigit_def)
  show ?thesis
    unfolding renderSearchResults_def m Let_def g
    by (simp add: objectEntries_def e searchGroup_def w t orphanWords_Ghost createWordElement_def
        toLowerCase_def toLowerChar_def startsWith_def Let_def)
qed

lemma orphanSearched_fields:
  "wordsData (snd (searchInput codeUnitCompare ''orph'' (snd (loadData codeUnitCompare orphanWords freshPage))))
     = orphanWords"
  "searchTerm (snd (searchInput codeUnitCompare ''orph'' (snd (loadData codeUnitCompare orphanWords freshPage))))
     = ''orph''"
  by (simp_all add: searchInput_fields searchInput_searchTerm loadData_def renderTree_fields
      trim_def isSpace_def toLowerCase_def toLowerChar_def)

lemma orphanSelected_fields:
  "wordsData orphanSelected = orphanWords"
  "searchTerm orphanSelected = ''orph''"
  "currentWord orphanSelected = Some ''Orphan''"
  "parentLink orphanSelected = Some ''Ghost''"
  "definitionPanel orphanSelected
     = InnerHTML (nl 16 @ ''<h2>Orphan</h2>'' @ nl 16
         @ ''<p class=\"definition-text\">No parent entry</p>'' @ nl 16 @ nl 16
         @ ''<p>Parent: <a href=\"#\" class=\"parent-link\" data-parent=\"Ghost\">Ghost</a></p>'' @ nl 12)"
proof -
  let ?st = "snd (searchInput codeUnitCompare ''orph'' (snd (loadData codeUnitCompare orphanWords freshPage)))"
  have f: "findWord (wordsData ?st) ''Orphan''
     = Some \<lparr>word = ''Orphan'', defn = ''No parent entry'', tags = None, parent = Some ''Ghost''\<rparr>"
    by (simp add: orphanSearched_fields orphanWords_Orphan)
  from selectWord_found [OF f, of codeUnitCompare] orphanSearched_fields
  show "wordsData orphanSelected = orphanWords"
    "searchTerm orphanSelected = ''orph''"
    "currentWord orphanSelected = Some ''Orphan''"
    "parentLink orphanSelected = Some ''Ghost''"
    "definitionPanel orphanSelected
     = InnerHTML (nl 16 @ ''<h2>Orphan</h2>'' @ nl 16
         @ ''<p class=\"definition-text\">No parent entry</p>'' @ nl 16 @ nl 16
         @ ''<p>Parent: <a href=\"#\" class=\"parent-link\" data-parent=\"Ghost\">Ghost</a></p>'' @ nl 12)"
    by (simp_all add: orphanSelected_def hasParentLink_def definitionTemplate_def tagList_def
        parentLine_def dataParent_def)
qed

lemma orphanSelected_tree:
  "treeContainer orphanSelected
     = Children
         [El ''div'' [''word-node'', ''hidden''] ''Ghost'' [(''data-word'', ''Ghost'')] (Some ''Ghost'') [],
          El ''div'' [''level''] [] [] None
            [El ''div'' [''word-node'', ''active''] ''Orphan'' [(''data-word'', ''Orphan'')]
                (Some ''Orphan'') []]]"
proof -
  let ?st = "snd (searchInput codeUnitCompare ''orph'' (snd (loadData codeUnitCompare orphanWords freshPage)))"
  let ?e = "\<lparr>word = ''Orphan'', defn = ''No parent entry'', tags = None, parent = Some ''Ghost''\<rparr>"
  let ?st1 = "?st\<lparr>currentWord := Some ''Orphan'',
                    treeContainer := toggleActiveAll ''Orphan'' (treeContainer ?st),
                    definitionPanel := InnerHTML (definitionTemplate ?e),
                    parentLink := (if hasParentLink ?e then Some (dataParent (the (parent ?e))) else None)\<rparr>"
  have f: "findWord (wordsData ?st) ''Orphan'' = Some ?e"
    by (simp add: orphanSearched_fields orphanWords_Orphan)
  have s: "orphanSelected = snd (renderTree codeUnitCompare (Some ''Orphan'') ?st1)"
    using f by (simp add: orphanSelected_def selectWord_def Let_def)
  have "wordsData ?st1 = orphanWords" "searchTerm ?st1 = ''orph''"
    by (simp_all add: orphanSearched_fields)
  from orphan_search_tree [OF this, of codeUnitCompare "Some ''Orphan''"] \<open>searchTerm ?st1 = ''orph''\<close>
  show ?thesis unfolding s by (simp add: renderTree_def)
qed

text \<open>
  C1: the code departs from the claim. With \<open>Orphan\<close> selected in the search view
  of the tree script, a click on the stub header \<open>Ghost\<close> (or on the parent link of
  the panel) calls \<open>selectWord\<close> with a word that matches no entry. The panel and
  the tree are left as they are, but the current word is overwritten before the
  guard: it is \<open>Ghost\<close> afterwards, and the next rendering of the same search marks
  the header \<open>Ghost\<close> as active instead of \<open>Orphan\<close>.
\<close>

theorem select_unknown_overwrites_current:
  "findWord (wordsData orphanSelected) ''Ghost'' = None
   \<and> currentWord orphanSelected = Some ''Orphan''
   \<and> parentLink orphanSelected = Some ''Ghost''
   \<and> El ''div'' [''word-node'', ''hidden''] ''Ghost'' [(''data-word'', ''Ghost'')] (Some ''Ghost'') []
        \<in> set (allNodes (treeContainer orphanSelected))
   \<and> clickElement codeUnitCompare
        (El ''div'' [''word-node'', ''hidden''] ''Ghost'' [(''data-word'', ''Ghost'')] (Some ''Ghost'') [])
        orphanSelected
       = (None, orphanSelected\<lparr>currentWord := Some ''Ghost''\<rparr>)
   \<and> clickParentLink codeUnitCompare orphanSelected
       = (None, orphanSelected\<lparr>currentWord := Some ''Ghost''\<rparr>)
   \<and> currentWord (snd (selectWord codeUnitCompare ''Ghost'' orphanSelected)) = Some ''Ghost''
   \<and> definitionPanel (snd (selectWord codeUnitCompare ''Ghost'' orphanSelected))
       = definitionPanel orphanSelected
   \<and> treeContainer (snd (selectWord codeUnitCompare ''Ghost'' orphanSelected))
       = treeContainer orphanSelected
   \<and> treeContainer (snd (searchInput codeUnitCompare ''orph'' orphanSelected))
       = Children
         [El ''div'' [''word-node'', ''hidden''] ''Ghost'' [(''data-word'', ''Ghost'')] (Some ''Ghost'') [],
          El ''div'' [''level''] [] [] None
            [El ''div'' [''word-node'', ''active''] ''Orphan'' [(''data-word'', ''Orphan'')]
                (Some ''Orphan'') []]]
   \<and> treeContainer (snd (searchInput codeUnitCompare ''orph''
        (snd (selectWord codeUnitCompare ''Ghost'' orphanSelected))))
       = Children
         [El ''div'' [''word-node'', ''active'', ''hidden''] ''Ghost'' [(''data-word'', ''Ghost'')]
             (Some ''Ghost'') [],
          El ''div'' [''level''] [] [] None
            [El ''div'' [''word-node''] ''Orphan'' [(''data-word'', ''Orphan'')] (Some ''Orphan'') []]]"
proof -
  have h: "findWord (wordsData orphanSelected) ''Ghost'' = None"
    by (simp add: orphanSelected_fields orphanWords_Ghost)
  note m = selectWord_miss [OF h, of codeUnitCompare]
  have a: "El ''div'' [''word-node'', ''hidden''] ''Ghost'' [(''data-word'', ''Ghost'')] (Some ''Ghost'') []
        \<in> set (allNodes (treeContainer orphanSelected))"
    by (simp add: orphanSelected_tree allNodes_def)
  have c: "clickElement codeUnitCompare
        (El ''div'' [''word-node'', ''hidden''] ''Ghost'' [(''data-word'', ''Ghost'')] (Some ''Ghost'') [])
        orphanSelected
       = (None, orphanSelected\<lparr>currentWord := Some ''Ghost''\<rparr>)"
    by (simp add: clickElement_def m)
  have p: "clickParentLink codeUnitCompare orphanSelected
       = (None, orphanSelected\<lparr>currentWord := Some ''Ghost''\<rparr>)"
    by (simp add: clickParentLink_def orphanSelected_fields m)
  have t: "toLowerCase (trim ''orph'') = ''orph''"
    by (simp add: trim_def isSpace_def toLowerCase_def toLowerChar_def)
  have r1: "treeContainer (snd (searchInput codeUnitCompare ''orph'' orphanSelected))
       = Children
         [El ''div'' [''word-node'', ''hidden''] ''Ghost'' [(''data-word'', ''Ghost'')] (Some ''Ghost'') [],
          El ''div'' [''level''] [] [] None
            [El ''div'' [''word-node'', ''active''] ''Orphan'' [(''data-word'', ''Orphan'')]
                (Some ''Orphan'') []]]"
    using orphan_search_tree [of "orphanSelected\<lparr>searchTerm := ''orph''\<rparr>" codeUnitCompare "Some ''Orphan''"]
    by (simp add: searchInput_def t Let_def renderTree_def orphanSelected_fields)
  have r2: "treeContainer (snd (searchInput codeUnitCompare ''orph''
        (orphanSelected\<lparr>currentWord := Some ''Ghost''\<rparr>)))
       = Children
         [El ''div'' [''word-node'', ''active'', ''hidden''] ''Ghost'' [(''data-word'', ''Ghost'')]
             (Some ''Ghost'') [],
          El ''div'' [''level''] [] [] None
            [El ''div'' [''word-node''] ''Orphan'' [(''data-word'', ''Orphan'')] (Some ''Orphan'') []]]"
    using orphan_search_tree [of "orphanSelected\<lparr>currentWord := Some ''Ghost'', searchTerm := ''orph''\<rparr>"
        codeUnitCompare "Some ''Ghost''"]
    by (simp add: searchInput_def t Let_def renderTree_def orphanSelected_fields)
  from h a c p r1 r2 show ?thesis
    by (simp add: m orphanSelected_fields)
qed

lemma render_words: "words (render st) = words st"
  by (simp add: render_def renderDefinitionPanel_def renderTree_s_frame split: option.splits)

lemma handleTreeClick_words: "words (handleTreeClick t st) = words st"
  by (cases t) (simp_all add: handleTreeClick_def render_words)

lemma handleTreeClick_current:
  "s_currentWord (handleTreeClick (WordNode p) st) = findWord (words st) p"
  by (simp add: handleTreeClick_def render_def renderDefinitionPanel_def renderTree_s_frame
      split: option.splits)

lemma sampleWords_find:
  "findWord sampleWords ''Hex Bolt''
     = Some \<lparr>word = ''Hex Bolt'', defn = ''Six-sided head'', tags = Some [], parent = Some ''Bolt''\<rparr>"
  "findWord sampleWords ''Bolt''
     = Some \<lparr>word = ''Bolt'', defn = ''A fastener'', tags = Some [''hardware''], parent = Some ''root''\<rparr>"
  by (simp_all add: findWord_def sampleWords_def toLowerCase_def toLowerChar_def)

lemma hexSearched_tree:
  "s_treeContainer (handleSearchInput ''hex'' (loadData_s sampleWords freshPage_s))
     = Children [El ''div'' [''word-node''] ''Hex Bolt'' [(''data-word'', ''Hex Bolt'')] None []]"
  by (simp add: handleSearchInput_def loadData_s_def freshPage_s_def render_def renderTree_s_def
      renderDefinitionPanel_def truthy_def trim_def isSpace_def toLowerCase_def toLowerChar_def
      sampleWords_def startsWith_def createWordElement_s_def getChildren_def)

lemma hexSelected_s_fields:
  "words hexSelected_s = sampleWords"
  "s_currentWord hexSelected_s
     = Some \<lparr>word = ''Hex Bolt'', defn = ''Six-sided head'', tags = Some [], parent = Some ''Bolt''\<rparr>"
  "s_definitionPanel hexSelected_s
     = InnerHTML ''<h2>Hex Bolt</h2><p class=\"definition-text\">Six-sided head</p><p>Parent: <a href=\"#\" class=\"parent-link\" data-parent=\"Bolt\">Bolt</a></p>''"
proof -
  let ?st = "handleSearchInput ''hex'' (loadData_s sampleWords freshPage_s)"
  have w: "words ?st = sampleWords"
    by (simp add: handleSearchInput_def renderTree_s_frame loadData_s_def render_words)
  have c: "prefetchedDefinition ?st = None"
    by (simp add: handleSearchInput_def renderTree_s_frame loadData_s_def render_def
        renderDefinitionPanel_def freshPage_s_def truthy_def)
  show "words hexSelected_s = sampleWords"
    by (simp add: hexSelected_s_def clickAt_def handleTreeClick_words w)
  show "s_currentWord hexSelected_s
     = Some \<lparr>word = ''Hex Bolt'', defn = ''Six-sided head'', tags = Some [], parent = Some ''Bolt''\<rparr>"
    by (simp add: hexSelected_s_def clickAt_def handleTreeClick_current w sampleWords_find)
  from click_direct [of ?st "''Hex Bolt''"] c
  show "s_definitionPanel hexSelected_s
     = InnerHTML ''<h2>Hex Bolt</h2><p class=\"definition-text\">Six-sided head</p><p>Parent: <a href=\"#\" class=\"parent-link\" data-parent=\"Bolt\">Bolt</a></p>''"
    by (simp add: hexSelected_s_def clickAt_def truthy_def w sampleWords_find directContent_def
        generateDefinitionHTML_def tagList_def hasParentLink_def parentLine_def)
qed

lemma quoteWords_find:
  "findWord quoteWords ''Washer''
     = Some \<lparr>word = ''Washer'', defn = ''A flat ring'', tags = None, parent = Some ''1/4\" Bolt''\<rparr>"
  "findWord quoteWords ''1/4\" Bolt''
     = Some \<lparr>word = ''1/4\" Bolt'', defn = ''Quarter inch'', tags = None, parent = Some ''root''\<rparr>"
  "findWord quoteWords ''1/4'' = None"
  by (simp_all add: findWord_def quoteWords_def toLowerCase_def toLowerChar_def)

lemma quoteLoaded_tree:
  "El ''div'' [''word-node''] ''Washer'' [(''data-word'', ''Washer'')] (Some ''Washer'') []
     \<in> set (allNodes (treeContainer (snd (loadData codeUnitCompare quoteWords freshPage))))"
  by (simp add: loadData_def freshPage_def renderTree_def renderDefaultTree_def getChildren_def
      quoteWords_def levelDiv_def createWordElement_def allNodes_def Let_def)

lemma washerSelected_fields:
  "wordsData washerSelected = quoteWords"
  "currentWord washerSelected = Some ''Washer''"
  "parentLink washerSelected = Some ''1/4''"
  "definitionPanel washerSelected
     = InnerHTML (nl 16 @ ''<h2>Washer</h2>'' @ nl 16
         @ ''<p class=\"definition-text\">A flat ring</p>'' @ nl 16 @ nl 16
         @ ''<p>Parent: <a href=\"#\" class=\"parent-link\" data-parent=\"1/4\" Bolt\">1/4\" Bolt</a></p>''
         @ nl 12)"
proof -
  let ?st = "snd (loadData codeUnitCompare quoteWords freshPage)"
  have w: "wordsData ?st = quoteWords"
    by (simp add: loadData_def renderTree_fields)
  then have f: "findWord (wordsData ?st) ''Washer''
     = Some \<lparr>word = ''Washer'', defn = ''A flat ring'', tags = None, parent = Some ''1/4\" Bolt''\<rparr>"
    by (simp add: quoteWords_find)
  from selectWord_found [OF f, of codeUnitCompare] w
  show "wordsData washerSelected = quoteWords"
    "currentWord washerSelected = Some ''Washer''"
    "parentLink washerSelected = Some ''1/4''"
    "definitionPanel washerSelected
     = InnerHTML (nl 16 @ ''<h2>Washer</h2>'' @ nl 16
         @ ''<p class=\"definition-text\">A flat ring</p>'' @ nl 16 @ nl 16
         @ ''<p>Parent: <a href=\"#\" class=\"parent-link\" data-parent=\"1/4\" Bolt\">1/4\" Bolt</a></p>''
         @ nl 12)"
    by (simp_all add: washerSelected_def hasParentLink_def definitionTemplate_def tagList_def
        parentLine_def dataParent_def)
qed

text \<open>
  Where the parent link of the tree script does lead to the parent: the strings of
  the entry hold no markup, and the parent is a non-empty string other than
  \<open>root\<close> that resolves.
\<close>

lemma parent_nav_found:
  assumes e: "findWord (wordsData st) (word e) = Some e"
    and pl: "plainEntry e"
    and p: "parent e = Some p" "p \<noteq> []" "p \<noteq> ''root''"
    and pe: "findWord (wordsData st) p = Some pe"
  shows "parentLink (snd (selectWord lc (word e) st)) = Some p"
    and "currentWord (snd (clickParentLink lc (snd (selectWord lc (word e) st)))) = Some p"
    and "definitionPanel (snd (clickParentLink lc (snd (selectWord lc (word e) st))))
           = InnerHTML (definitionTemplate pe)"
proof -
  let ?st1 = "snd (selectWord lc (word e) st)"
  from p have h: "hasParentLink e" by (simp add: hasParentLink_def)
  from pl p(1) have d: "dataParent p = p" by (rule plainEntry_parent)
  with h selectWord_found(2) [OF e, of lc] p show l: "parentLink ?st1 = Some p" by simp
  from selectWord_found(4) [OF e, of lc] pe have f: "findWord (wordsData ?st1) p = Some pe" by simp
  from l have c: "clickParentLink lc ?st1 = selectWord lc p ?st1"
    by (simp add: clickParentLink_def)
  from selectWord_found(3) [OF f, of lc] c
  show "currentWord (snd (clickParentLink lc ?st1)) = Some p" by simp
  from selectWord_found(1) [OF f, of lc] c
  show "definitionPanel (snd (clickParentLink lc ?st1)) = InnerHTML (definitionTemplate pe)" by simp
qed

lemma parent_nav_none:
  assumes e: "findWord (wordsData st) (word e) = Some e"
    and pl: "plainEntry e"
    and p: "parent e = None \<or> parent e = Some [] \<or> parent e = Some ''root''"
  shows "clickParentLink lc (snd (selectWord lc (word e) st)) = (None, snd (selectWord lc (word e) st))"
proof -
  from p have "\<not> hasParentLink e" by (simp add: hasParentLink_iff)
  with selectWord_found(2) [OF e, of lc] show ?thesis by (simp add: clickParentLink_def)
qed

text \<open>
  C7: the code departs from the claim in three places. In \<open>script.js\<close>, with
  \<open>Hex Bolt\<close> selected and its link to \<open>Bolt\<close> drawn, a click on the link is heard
  by no listener: the selection stays \<open>Hex Bolt\<close>, although \<open>Bolt\<close> resolves. In
  the tree script, with \<open>Washer\<close> selected, whose parent \<open>1/4" Bolt\<close> resolves, the
  link read back from the panel carries \<open>1/4\<close>: following it selects a word that
  matches no entry and leaves the panel on \<open>Washer\<close>. And where the parent does not
  resolve (\<open>Orphan\<close>, parent \<open>Ghost\<close>), following the link is not a no-op: it
  overwrites the current word.
\<close>

theorem parent_navigation_lost:
  "s_treeContainer (handleSearchInput ''hex'' (loadData_s sampleWords freshPage_s))
     = Children [El ''div'' [''word-node''] ''Hex Bolt'' [(''data-word'', ''Hex Bolt'')] None []]
   \<and> s_currentWord hexSelected_s
     = Some \<lparr>word = ''Hex Bolt'', defn = ''Six-sided head'', tags = Some [], parent = Some ''Bolt''\<rparr>
   \<and> s_definitionPanel hexSelected_s
     = InnerHTML ''<h2>Hex Bolt</h2><p class=\"definition-text\">Six-sided head</p><p>Parent: <a href=\"#\" class=\"parent-link\" data-parent=\"Bolt\">Bolt</a></p>''
   \<and> findWord (words hexSelected_s) ''Bolt''
     = Some \<lparr>word = ''Bolt'', defn = ''A fastener'', tags = Some [''hardware''], parent = Some ''root''\<rparr>
   \<and> clickAt InPanel (ParentLink ''Bolt'') hexSelected_s = hexSelected_s
   \<and> El ''div'' [''word-node''] ''Washer'' [(''data-word'', ''Washer'')] (Some ''Washer'') []
       \<in> set (allNodes (treeContainer (snd (loadData codeUnitCompare quoteWords freshPage))))
   \<and> currentWord washerSelected = Some ''Washer''
   \<and> findWord (wordsData washerSelected) ''Washer''
     = Some \<lparr>word = ''Washer'', defn = ''A flat ring'', tags = None, parent = Some ''1/4\" Bolt''\<rparr>
   \<and> findWord (wordsData washerSelected) ''1/4\" Bolt''
     = Some \<lparr>word = ''1/4\" Bolt'', defn = ''Quarter inch'', tags = None, parent = Some ''root''\<rparr>
   \<and> parentLink washerSelected = Some ''1/4''
   \<and> findWord (wordsData washerSelected) ''1/4'' = None
   \<and> clickParentLink codeUnitCompare washerSelected
     = (None, washerSelected\<lparr>currentWord := Some ''1/4''\<rparr>)
   \<and> findWord (wordsData orphanSelected) ''Ghost'' = None
   \<and> currentWord orphanSelected = Some ''Orphan''
   \<and> clickParentLink codeUnitCompare orphanSelected
     = (None, orphanSelected\<lparr>currentWord := Some ''Ghost''\<rparr>)"
proof -
  have a: "clickAt InPanel (ParentLink ''Bolt'') hexSelected_s = hexSelected_s"
    by (simp add: clickAt_def)
  have q: "findWord (wordsData washerSelected) ''1/4'' = None"
    by (simp add: washerSelected_fields quoteWords_find)
  have c: "clickParentLink codeUnitCompare washerSelected
     = (None, washerSelected\<lparr>currentWord := Some ''1/4''\<rparr>)"
    by (simp add: clickParentLink_def washerSelected_fields selectWord_miss [OF q])
  have g: "findWord (wordsData orphanSelected) ''Ghost'' = None"
    by (simp add: orphanSelected_fields orphanWords_Ghost)
  have o: "clickParentLink codeUnitCompare orphanSelected
     = (None, orphanSelected\<lparr>currentWord := Some ''Ghost''\<rparr>)"
    by (simp add: clickParentLink_def orphanSelected_fields selectWord_miss [OF g])
  from a q c g o hexSearched_tree quoteLoaded_tree show ?thesis
    by (simp add: hexSelected_s_fields washerSelected_fields orphanSelected_fields
        sampleWords_find quoteWords_find)
qed

end
